theory Spec2Isabelle
  imports Complex_Main "HOL-Library.Word"
begin

section \<open>The OMPL global planner for a mobile base: a shallow embedding\<close>

text \<open>
  The theory embeds \<^verbatim>\<open>src/ompl_planner_base.cpp\<close>: the path densifier
  \<^verbatim>\<open>interpolatePathPose2D\<close>, the footprint cost and the validity predicate
  \<^verbatim>\<open>isStateValid2DGrid\<close>, the planner selection \<^verbatim>\<open>setPlannerType\<close> and the
  orchestrating routine \<^verbatim>\<open>makePlan\<close>.

  Conventions of the embedding.
  \<^item> A C++ \<^verbatim>\<open>double\<close> is a real number: rounding, infinities and NaN are not
    represented. Where the C++ would divide by zero to obtain an infinity that is then
    converted to \<^verbatim>\<open>int\<close>, the model says so explicitly (see below).
  \<^item> A C++ \<^verbatim>\<open>int\<close> has 32 bits. The conversion of a \<^verbatim>\<open>double\<close> to
    \<^verbatim>\<open>int\<close> truncates toward zero and is undefined when the truncated value does not
    fit; incrementing an \<^verbatim>\<open>int\<close> that holds the largest value is undefined as well.
    A function of the model that can reach such a point returns an \<open>option\<close>, and
    \<open>None\<close> stands for undefined behaviour of the C++ program.
  \<^item> A \<^verbatim>\<open>std::vector\<close> is a list; its size is taken to fit an \<^verbatim>\<open>int\<close>.
  \<^item> Calls into ROS, tf, costmap and OMPL are collaborators outside the repository. The
    ones whose results matter are fields of the records below or are recorded as
    events of a trace. This includes the content of a state that OMPL allocates and
    the program reads without having written it.
\<close>

subsection \<open>Numbers\<close>

definition INT_MAX :: int where
  "INT_MAX = 2147483647"

definition INT_MIN :: int where
  "INT_MIN = - 2147483648"

text \<open>Truncation toward zero, the rounding of a C++ conversion from \<^verbatim>\<open>double\<close> to \<^verbatim>\<open>int\<close>.\<close>

definition trunc_toward_zero :: "real \<Rightarrow> int" where
  "trunc_toward_zero r = (if 0 \<le> r then \<lfloor>r\<rfloor> else \<lceil>r\<rceil>)"

text \<open>\<^verbatim>\<open>(int) r\<close>: defined only when the truncated value is representable.\<close>

definition double_to_int :: "real \<Rightarrow> int option" where
  "double_to_int r =
     (let t = trunc_toward_zero r
      in if INT_MIN \<le> t \<and> t \<le> INT_MAX then Some t else None)"

subsection \<open>Planar poses\<close>

text \<open>\<^verbatim>\<open>geometry_msgs::Pose2D\<close>: three doubles, with no invariant on the heading.\<close>

record Pose2D =
  pose_x :: real
  pose_y :: real
  pose_theta :: real

text \<open>
  Modelled from the spec: \<^verbatim>\<open>angles::normalize_angle\<close> belongs to the ROS
  \<^verbatim>\<open>angles\<close> package, which is not part of the repository. The spec describes it as
  normalising an angle to the canonical range \<open>(-\<pi>, \<pi>]\<close>; the definition picks the
  representative of the angle modulo \<open>2\<pi>\<close> in that range.
\<close>

definition normalize_angle :: "real \<Rightarrow> real" where
  "normalize_angle a = a - 2 * pi * of_int \<lceil>(a - pi) / (2 * pi)\<rceil>"

definition canonical_heading :: "real \<Rightarrow> bool" where
  "canonical_heading a = (- pi < a \<and> a \<le> pi)"

subsection \<open>The path densifier\<close>

text \<open>
  The planar distance of two frames as \<^verbatim>\<open>interpolatePathPose2D\<close> computes it
  (\<^verbatim>\<open>frame_distance\<close>): the heading is ignored.
\<close>

definition frame_distance :: "Pose2D \<Rightarrow> Pose2D \<Rightarrow> real" where
  "frame_distance last_frame curr_frame =
     sqrt ((pose_x curr_frame - pose_x last_frame) * (pose_x curr_frame - pose_x last_frame)
         + (pose_y curr_frame - pose_y last_frame) * (pose_y curr_frame - pose_y last_frame))"

text \<open>
  The frame \<^verbatim>\<open>temp_frame\<close> built in the inner loop for the counter \<open>j\<close>, from the
  last frame and the per-step differences.
\<close>

definition temp_frame :: "Pose2D \<Rightarrow> real \<Rightarrow> real \<Rightarrow> real \<Rightarrow> int \<Rightarrow> Pose2D" where
  "temp_frame last_frame dx dy dth j =
     \<lparr> pose_x = pose_x last_frame + of_int j * dx,
       pose_y = pose_y last_frame + of_int j * dy,
       pose_theta = normalize_angle (pose_theta last_frame + of_int j * dth) \<rparr>"

text \<open>
  One round of the outer loop: the frames pushed to \<^verbatim>\<open>ipoPath\<close> for the pair
  (\<^verbatim>\<open>last_frame\<close>, \<^verbatim>\<open>curr_frame\<close>). With \<open>max_dist = 0\<close> and a positive distance the
  C++ computes \<^verbatim>\<open>ceil\<close> of an infinity and converts it to \<^verbatim>\<open>int\<close>; the inner loop
  \<^verbatim>\<open>for(int j = 1; j <= (int)num_insertions; j++)\<close> overflows \<open>j\<close> when the bound is
  \<open>INT_MAX\<close>.
\<close>

definition interpolate_pair :: "real \<Rightarrow> Pose2D \<Rightarrow> Pose2D \<Rightarrow> Pose2D list option" where
  "interpolate_pair max_dist last_frame curr_frame =
     (let diff_x = pose_x curr_frame - pose_x last_frame;
          diff_y = pose_y curr_frame - pose_y last_frame;
          diff_theta = normalize_angle (pose_theta curr_frame - pose_theta last_frame)
      in if frame_distance last_frame curr_frame > max_dist then
           (if max_dist = 0 then None
            else
              let num_insertions = \<lceil>frame_distance last_frame curr_frame / max_dist\<rceil>
              in case double_to_int (of_int num_insertions) of
                   None \<Rightarrow> None
                 | Some n \<Rightarrow>
                     if n = INT_MAX then None
                     else Some (map (temp_frame last_frame
                                       (diff_x / (of_int num_insertions + 1))
                                       (diff_y / (of_int num_insertions + 1))
                                       (diff_theta / (of_int num_insertions + 1))) [1..n]
                                @ [curr_frame]))
         else Some [curr_frame])"

text \<open>
  The outer loop \<^verbatim>\<open>for(int i = 1; i < path_size; i++)\<close>: \<open>ipoPath\<close> is the vector
  built so far (never empty), the second list holds the frames \<^verbatim>\<open>path[i]\<close> still to
  visit.
\<close>

fun ipo_loop :: "real \<Rightarrow> Pose2D list \<Rightarrow> Pose2D list \<Rightarrow> Pose2D list option" where
  "ipo_loop max_dist ipoPath [] = Some ipoPath"
| "ipo_loop max_dist ipoPath (curr_frame # rest) =
     (case interpolate_pair max_dist (last ipoPath) curr_frame of
        None \<Rightarrow> None
      | Some frames \<Rightarrow> ipo_loop max_dist (ipoPath @ frames) rest)"

text \<open>
  \<^verbatim>\<open>interpolatePathPose2D\<close>: the returned flag and the value of the reference
  parameter \<^verbatim>\<open>path\<close> after the call. A path of fewer than two frames is left as it
  is and reported with \<open>False\<close>.
\<close>

definition interpolatePathPose2D :: "real \<Rightarrow> Pose2D list \<Rightarrow> (bool \<times> Pose2D list) option" where
  "interpolatePathPose2D max_dist path =
     (if length path < 2 then Some (False, path)
      else case ipo_loop max_dist [hd path] (tl path) of
             None \<Rightarrow> None
           | Some ipoPath \<Rightarrow> Some (True, ipoPath))"

subsection \<open>Messages, states and the planner object\<close>

text \<open>
  \<^verbatim>\<open>geometry_msgs::PoseStamped\<close>. The header's time stamp is the wall-clock time of
  the call and is left out.
\<close>

record Quaternion =
  quat_x :: real
  quat_y :: real
  quat_z :: real
  quat_w :: real

record Pose =
  position_x :: real
  position_y :: real
  position_z :: real
  orientation :: Quaternion

record PoseStamped =
  frame_id :: string
  pose :: Pose

text \<open>A state of \<^verbatim>\<open>ompl::base::SE2StateSpace\<close>.\<close>

record SE2State =
  getX :: real
  getY :: real
  getYaw :: real

text \<open>\<^verbatim>\<open>ompl::base::RealVectorBounds bounds(2)\<close>: index 0 is x, index 1 is y.\<close>

record RealVectorBounds =
  bounds_low :: "real list"
  bounds_high :: "real list"

text \<open>The accessors of \<^verbatim>\<open>costmap_2d::Costmap2D\<close> that the planner reads.\<close>

record Costmap2D =
  getOriginX :: real
  getOriginY :: real
  getSizeInMetersX :: real
  getSizeInMetersY :: real

text \<open>The nine planners of \<^verbatim>\<open>ompl::geometric\<close> that \<^verbatim>\<open>setPlannerType\<close> constructs.\<close>

datatype planner = EST | KPIECE1 | LBKPIECE1 | LazyRRT | pRRT | RRT | RRTConnect | pSBL | SBL

text \<open>
  What \<^verbatim>\<open>makePlan\<close> has handed to \<^verbatim>\<open>ompl::geometric::SimpleSetup\<close> when it calls
  \<^verbatim>\<open>solve\<close>. \<open>setup_planner = None\<close> is the empty \<^verbatim>\<open>PlannerPtr\<close>.
\<close>

record SimpleSetup =
  setup_bounds :: RealVectorBounds
  setup_validity_checker :: "SE2State \<Rightarrow> bool"
  setup_resolution :: real
  setup_start :: SE2State
  setup_goal :: SE2State
  setup_planner :: "planner option"

text \<open>
  The private parameter server: a parameter that is not set is \<open>None\<close>, and
  \<^verbatim>\<open>private_nh_.param\<close> then yields the default given in the call.
\<close>

record ParamServer =
  prm_max_dist_between_pathframes :: "real option"
  prm_max_footprint_cost :: "32 word option"
  prm_relative_validity_check_resolution :: "real option"
  prm_interpolate_path :: "bool option"
  prm_solver_maxtime :: "real option"
  prm_global_planner_type :: "string option"

definition param :: "'a option \<Rightarrow> 'a \<Rightarrow> 'a" where
  "param stored default_val = (case stored of None \<Rightarrow> default_val | Some v \<Rightarrow> v)"

text \<open>
  The members of \<^verbatim>\<open>OMPLPlannerBase\<close> (without the trailing underscore of the C++
  names) and its collaborators:
  \<^item> \<open>world_model_footprintCost\<close> is \<^verbatim>\<open>world_model_->footprintCost\<close> for the stored
    footprint and radii, as a function of x, y and theta;
  \<^item> \<open>getGlobalFrameID\<close> and \<open>getCostmap\<close> are the accessors of \<^verbatim>\<open>costmap_ros_\<close>;
  \<^item> \<open>tf_yaw\<close> is the yaw that tf's \<^verbatim>\<open>getEulerYPR\<close> extracts from an orientation,
    and \<open>tf_createQuaternionFromYaw\<close> is \<^verbatim>\<open>tf::createQuaternionFromYaw\<close>;
  \<^item> \<open>ompl_allocState k\<close> is the content of the \<open>k\<close>-th scoped state that a call of
    \<^verbatim>\<open>makePlan\<close> constructs (0 for the start, 1 for the goal): OMPL allocates a state
    without initialising it, and \<^verbatim>\<open>makePlan\<close> never writes it (see below);
  \<^item> \<open>ompl_solution\<close> stands for \<^verbatim>\<open>solve\<close>, \<^verbatim>\<open>simplifySolution\<close> and
    \<^verbatim>\<open>getSolutionPath\<close> of OMPL: \<open>None\<close> when \<^verbatim>\<open>solve\<close> returns false, otherwise
    the states of the simplified solution path.
\<close>

record OMPLPlannerBase =
  initialized :: bool
  getCostmap :: Costmap2D
  getGlobalFrameID :: string
  footprint_spec :: "(real \<times> real) list"
  world_model_footprintCost :: "real \<Rightarrow> real \<Rightarrow> real \<Rightarrow> real"
  publish_diagnostics :: bool
  private_nh :: ParamServer
  max_dist_between_pathframes :: real
  max_footprint_cost :: "32 word"
  relative_validity_check_resolution :: real
  interpolate_path :: bool
  solver_maxtime :: real
  tf_yaw :: "Quaternion \<Rightarrow> real"
  tf_createQuaternionFromYaw :: "real \<Rightarrow> Quaternion"
  ompl_allocState :: "nat \<Rightarrow> SE2State"
  ompl_solution :: "SimpleSetup \<Rightarrow> real \<Rightarrow> SE2State list option"

text \<open>
  What \<^verbatim>\<open>makePlan\<close> does to the outside, in the order of the calls. Debug and info
  log lines are left out, and so is what the solver does while it runs (its calls of
  \<^verbatim>\<open>isStateValid2DGrid\<close> and the lines they log).
\<close>

datatype event =
    ROS_ERROR string
  | ROS_WARN string
  | ROS_FATAL string
  | SetBounds RealVectorBounds
  | SetStateValidityChecker
  | SetStateValidityCheckingResolution real
  | FootprintCost Pose2D
  | SetStartAndGoalStates SE2State SE2State
  | SetPlanner "planner option"
  | Solve real
  | SimplifySolution
  | PublishDiagnostics string nat
  | PublishPlan "PoseStamped list"
  | PublishStats

subsection \<open>Parameters\<close>

text \<open>\<^verbatim>\<open>readParameters\<close>: the updated object and the warning, if any.\<close>

definition readParameters :: "OMPLPlannerBase \<Rightarrow> OMPLPlannerBase \<times> event list" where
  "readParameters P =
     (let nh = private_nh P;
          P1 = P \<lparr> max_dist_between_pathframes := param (prm_max_dist_between_pathframes nh) 0.10,
                   max_footprint_cost := param (prm_max_footprint_cost nh) 256,
                   relative_validity_check_resolution :=
                     param (prm_relative_validity_check_resolution nh) 0.004,
                   interpolate_path := param (prm_interpolate_path nh) True,
                   solver_maxtime := param (prm_solver_maxtime nh) 1.0 \<rparr>
      in if max_dist_between_pathframes P1 \<le> 0.0
         then (P1 \<lparr> max_dist_between_pathframes := 0.10 \<rparr>,
               [ROS_WARN ''Assigned Distance for interpolation of path-frames invalid.''])
         else (P1, []))"

subsection \<open>Type conversions\<close>

text \<open>
  \<^verbatim>\<open>convert(const ompl::base::State*, Pose2D&)\<close> and
  \<^verbatim>\<open>convert(const ompl::base::ScopedState<>&, Pose2D&)\<close>: both read a state and write
  a pose with a normalised heading.
\<close>

definition convert_State_Pose2D :: "SE2State \<Rightarrow> Pose2D" where
  "convert_State_Pose2D ompl_state =
     \<lparr> pose_x = getX ompl_state, pose_y = getY ompl_state,
       pose_theta = normalize_angle (getYaw ompl_state) \<rparr>"

text \<open>
  \<^verbatim>\<open>convert(const Pose2D&, ScopedState<>&)\<close>: writes a state from a pose.
  \<^verbatim>\<open>makePlan\<close> does not call this overload.
\<close>

definition convert_Pose2D_State :: "Pose2D \<Rightarrow> SE2State" where
  "convert_Pose2D_State pose2D =
     \<lparr> getX = pose_x pose2D, getY = pose_y pose2D, getYaw = pose_theta pose2D \<rparr>"

text \<open>\<^verbatim>\<open>convert(const Pose&, Pose2D&)\<close>, with the yaw extraction of tf as a parameter.\<close>

definition convert_Pose_Pose2D :: "(Quaternion \<Rightarrow> real) \<Rightarrow> Pose \<Rightarrow> Pose2D" where
  "convert_Pose_Pose2D yaw_of p =
     \<lparr> pose_x = position_x p, pose_y = position_y p,
       pose_theta = normalize_angle (yaw_of (orientation p)) \<rparr>"

text \<open>
  \<^verbatim>\<open>convert(const Pose2D&, Pose&)\<close>, with \<^verbatim>\<open>tf::createQuaternionFromYaw\<close> as a
  parameter.
\<close>

definition convert_Pose2D_Pose :: "(real \<Rightarrow> Quaternion) \<Rightarrow> Pose2D \<Rightarrow> Pose" where
  "convert_Pose2D_Pose quaternion_of pose2D =
     (let frame_quat = quaternion_of (pose_theta pose2D)
      in \<lparr> position_x = pose_x pose2D, position_y = pose_y pose2D, position_z = 0.0,
           orientation = \<lparr> quat_x = quat_x frame_quat, quat_y = quat_y frame_quat,
                           quat_z = quat_z frame_quat, quat_w = quat_w frame_quat \<rparr> \<rparr>)"

subsection \<open>Footprint cost and validity\<close>

definition footprintCost :: "OMPLPlannerBase \<Rightarrow> Pose2D \<Rightarrow> real" where
  "footprintCost P p =
     (if length (footprint_spec P) < 3 then - 1.0
      else world_model_footprintCost P (pose_x p) (pose_y p) (pose_theta p))"

text \<open>The line that \<^verbatim>\<open>footprintCost\<close> logs when there is no footprint.\<close>

definition footprintCost_log :: "OMPLPlannerBase \<Rightarrow> event list" where
  "footprintCost_log P =
     (if length (footprint_spec P) < 3
      then [ROS_ERROR ''We have no footprint... do nothing''] else [])"

definition isStateValid2DGrid :: "OMPLPlannerBase \<Rightarrow> SE2State \<Rightarrow> bool" where
  "isStateValid2DGrid P state =
     (let checked_state = convert_State_Pose2D state;
          costs = footprintCost P checked_state
      in costs \<ge> 0 \<and> costs < real_of_int (sint (max_footprint_cost P)))"

text \<open>
  The test that \<^verbatim>\<open>makePlan\<close> applies to the goal and then to the start:
  \<^verbatim>\<open>int sample_costs = footprintCost(pose);\<close> followed by
  \<^verbatim>\<open>(sample_costs < 0.0) || (sample_costs > max_footprint_cost_)\<close>. The result is
  \<open>Some True\<close> when the test fires, that is when planning is aborted.
\<close>

definition endpoint_in_collision :: "OMPLPlannerBase \<Rightarrow> Pose2D \<Rightarrow> bool option" where
  "endpoint_in_collision P p =
     (case double_to_int (footprintCost P p) of
        None \<Rightarrow> None
      | Some sample_costs \<Rightarrow>
          Some (sample_costs < 0 \<or> sample_costs > sint (max_footprint_cost P)))"

subsection \<open>Planner selection\<close>

text \<open>
  \<^verbatim>\<open>setPlannerType\<close>: the value stored in \<^verbatim>\<open>planner_type_\<close>, the pointer
  \<^verbatim>\<open>target_planner_ptr\<close> (\<open>None\<close> when it was never assigned) and the events.
  \<^verbatim>\<open>ROS_FATAL\<close> writes a log line and returns; \<^verbatim>\<open>setPlanner\<close> is called on every
  path.
\<close>

definition setPlannerType :: "OMPLPlannerBase \<Rightarrow> string \<times> planner option \<times> event list" where
  "setPlannerType P =
     (let default_planner = ''LBKPIECE'';
          planner_type = param (prm_global_planner_type (private_nh P)) default_planner;
          (target_planner_ptr, logged) =
            (if planner_type = ''EST'' then (Some EST, [])
             else if planner_type = ''KPIECE'' then (Some KPIECE1, [])
             else if planner_type = ''LBKPIECE'' then (Some LBKPIECE1, [])
             else if planner_type = ''LazyRRT'' then (Some LazyRRT, [])
             else if planner_type = ''pRRT'' then (Some pRRT, [])
             else if planner_type = ''RRT'' then (Some RRT, [])
             else if planner_type = ''RRTConnect'' then (Some RRTConnect, [])
             else if planner_type = ''pSBL'' then (Some pSBL, [])
             else if planner_type = ''SBL'' then (Some SBL, [])
             else (None, [ROS_FATAL planner_type]))
      in (planner_type, target_planner_ptr, logged @ [SetPlanner target_planner_ptr]))"

text \<open>The planner-kind strings that one of the nine branches accepts.\<close>

definition supported_planner_types :: "string list" where
  "supported_planner_types =
     [''EST'', ''KPIECE'', ''LBKPIECE'', ''LazyRRT'', ''pRRT'', ''RRT'', ''RRTConnect'',
      ''pSBL'', ''SBL'']"

subsection \<open>The orchestrator\<close>

text \<open>
  The bounds that \<^verbatim>\<open>makePlan\<close> computes from the costmap (lines 160 to 175): the
  upper bound is the size minus the origin, the lower bound is the upper bound minus
  the size.
\<close>

definition map_bounds :: "Costmap2D \<Rightarrow> RealVectorBounds" where
  "map_bounds costmap =
     (let map_upperbound_x = getSizeInMetersX costmap - getOriginX costmap;
          map_lowerbound_x = map_upperbound_x - getSizeInMetersX costmap;
          map_upperbound_y = getSizeInMetersY costmap - getOriginY costmap;
          map_lowerbound_y = map_upperbound_y - getSizeInMetersY costmap
      in \<lparr> bounds_low = [map_lowerbound_x, map_lowerbound_y],
           bounds_high = [map_upperbound_x, map_upperbound_y] \<rparr>)"

text \<open>
  Modelled from the spec: \<^verbatim>\<open>satisfiesBounds\<close> of OMPL's SE2 state space is not part
  of the repository. The spec describes an exact membership test in the position
  bounds with an unconstrained heading.
\<close>

definition satisfiesBounds :: "RealVectorBounds \<Rightarrow> SE2State \<Rightarrow> bool" where
  "satisfiesBounds b s =
     (bounds_low b ! 0 \<le> getX s \<and> getX s \<le> bounds_high b ! 0 \<and>
      bounds_low b ! 1 \<le> getY s \<and> getY s \<le> bounds_high b ! 1)"

text \<open>The body of the last loop of \<^verbatim>\<open>makePlan\<close>: one stamped pose per frame.\<close>

definition stamp_pose :: "OMPLPlannerBase \<Rightarrow> Pose2D \<Rightarrow> PoseStamped" where
  "stamp_pose P p =
     \<lparr> frame_id = getGlobalFrameID P,
       pose = convert_Pose2D_Pose (tf_createQuaternionFromYaw P) p \<rparr>"

text \<open>\<^verbatim>\<open>publishPlan\<close>: an empty path is not published.\<close>

definition publishPlan :: "PoseStamped list \<Rightarrow> event list" where
  "publishPlan path = (if path = [] then [] else [PublishPlan path])"

text \<open>The line that \<^verbatim>\<open>interpolatePathPose2D\<close> logs for a path of fewer than two frames.\<close>

definition interpolatePathPose2D_log :: "Pose2D list \<Rightarrow> event list" where
  "interpolatePathPose2D_log path =
     (if length path < 2
      then [ROS_ERROR ''Path is not valid. Interpolation not possible. Aborting.''] else [])"

text \<open>
  \<^verbatim>\<open>makePlan\<close> from line 294 on, once \<^verbatim>\<open>solve\<close> has succeeded with the states
  \<open>ompl_path\<close>: the flag returned, the plan and the events. \<open>num_frames_inpath\<close> is
  computed before the interpolation and bounds the last loop, which reads
  \<^verbatim>\<open>temp_plan_Pose2D[i]\<close>; a read past the end of the vector would be undefined.
\<close>

definition makePlan_solved ::
  "OMPLPlannerBase \<Rightarrow> SE2State list \<Rightarrow> (bool \<times> PoseStamped list \<times> event list) option" where
  "makePlan_solved P ompl_path =
     (let num_frames_inpath = length ompl_path;
          diag = (if publish_diagnostics P
                  then [PublishDiagnostics ''success'' num_frames_inpath] else []);
          temp_plan_Pose2D = map convert_State_Pose2D ompl_path;
          ipo_log = (if interpolate_path P
                     then interpolatePathPose2D_log temp_plan_Pose2D else [])
      in case (if interpolate_path P
               then interpolatePathPose2D (max_dist_between_pathframes P) temp_plan_Pose2D
               else Some (True, temp_plan_Pose2D)) of
           None \<Rightarrow> None
         | Some (ipo_success, interpolated) \<Rightarrow>
             if \<not> ipo_success
             then Some (False, [],
                        [SimplifySolution] @ diag @ ipo_log
                        @ [ROS_ERROR ''Something went wrong during interpolation.''])
             else if length interpolated < num_frames_inpath then None
             else
               let temp_plan = map (stamp_pose P) (take num_frames_inpath interpolated)
               in Some (True, temp_plan,
                        [SimplifySolution] @ diag @ ipo_log @ publishPlan temp_plan
                        @ (if publish_diagnostics P then [PublishStats] else [])))"

text \<open>
  \<^verbatim>\<open>makePlan\<close> from line 229 to line 292: the membership of the start and goal
  states in the bounds, the planner selection and the call of the solver. \<open>trace\<close>
  holds the events so far.

  The calls \<^verbatim>\<open>convert(ompl_scoped_state_start, start2D)\<close> at line 233 and
  \<^verbatim>\<open>convert(ompl_scoped_state_goal, goal2D)\<close> at line 248 have a scoped state as
  their first and a pose as their second argument, so they select the overload of
  line 577, which reads the state and writes the pose. The scoped states therefore
  keep the content they were allocated with, the poses \<open>start2D\<close> and \<open>goal2D\<close>
  are overwritten from them and are not read again, and both the membership test and
  \<^verbatim>\<open>setStartAndGoalStates\<close> see the states as allocated.
\<close>

definition makePlan_search ::
  "OMPLPlannerBase \<Rightarrow> RealVectorBounds \<Rightarrow> event list
   \<Rightarrow> (bool \<times> PoseStamped list \<times> event list) option" where
  "makePlan_search P bounds trace =
     (let ompl_scoped_state_start = ompl_allocState P 0;
          start2D = convert_State_Pose2D ompl_scoped_state_start
      in if \<not> satisfiesBounds bounds ompl_scoped_state_start
         then Some (False, [],
                    trace @ [ROS_ERROR ''Start Pose lies outside the bounds of the map''])
         else
           let ompl_scoped_state_goal = ompl_allocState P 1;
               goal2D = convert_State_Pose2D ompl_scoped_state_goal
           in if \<not> satisfiesBounds bounds ompl_scoped_state_goal
              then Some (False, [],
                         trace @ [ROS_ERROR ''Target Pose lies outside the bounds of the map''])
              else
                let (planner_type, target_planner_ptr, selection) = setPlannerType P;
                    simple_setup =
                      \<lparr> setup_bounds = bounds,
                        setup_validity_checker = isStateValid2DGrid P,
                        setup_resolution = relative_validity_check_resolution P,
                        setup_start = ompl_scoped_state_start,
                        setup_goal = ompl_scoped_state_goal,
                        setup_planner = target_planner_ptr \<rparr>;
                    trace_solve =
                      trace
                      @ [SetStartAndGoalStates ompl_scoped_state_start ompl_scoped_state_goal]
                      @ selection @ [Solve (solver_maxtime P)]
                in case ompl_solution P simple_setup (solver_maxtime P) of
                     None \<Rightarrow>
                       Some (False, [],
                             trace_solve @ [ROS_WARN ''No path found'']
                             @ (if publish_diagnostics P
                                then [PublishDiagnostics ''failed'' 0] else []))
                   | Some ompl_path \<Rightarrow>
                       (case makePlan_solved P ompl_path of
                          None \<Rightarrow> None
                        | Some (ok, plan, events) \<Rightarrow>
                            Some (ok, plan, trace_solve @ events)))"

text \<open>
  \<^verbatim>\<open>makePlan\<close>: the flag returned, the value of the reference parameter
  \<^verbatim>\<open>plan\<close> after the call and the events, or \<open>None\<close> for undefined behaviour. The
  parameters are read into the object first; every later step works on the updated
  object. A \<open>FootprintCost\<close> event marks a call of \<^verbatim>\<open>footprintCost\<close> and is followed
  by the line that the call logs, if any.
\<close>

definition makePlan ::
  "OMPLPlannerBase \<Rightarrow> PoseStamped \<Rightarrow> PoseStamped \<Rightarrow> PoseStamped list
   \<Rightarrow> (bool \<times> PoseStamped list \<times> event list) option" where
  "makePlan P0 start goal plan =
     (if \<not> initialized P0
      then Some (False, plan, [ROS_ERROR ''The planner has not been initialized''])
      else
        let (P, warned) = readParameters P0
        in if frame_id goal \<noteq> getGlobalFrameID P
           then Some (False, [],
                      warned @ [ROS_ERROR ''This planner will only accept goals in the map frame''])
           else
             let bounds = map_bounds (getCostmap P);
                 trace_setup =
                   warned
                   @ [SetBounds bounds, SetStateValidityChecker,
                      SetStateValidityCheckingResolution (relative_validity_check_resolution P)];
                 start2D = convert_Pose_Pose2D (tf_yaw P) (pose start);
                 goal2D = convert_Pose_Pose2D (tf_yaw P) (pose goal);
                 trace_goal = trace_setup @ [FootprintCost goal2D] @ footprintCost_log P
             in case endpoint_in_collision P goal2D of
                  None \<Rightarrow> None
                | Some True \<Rightarrow>
                    Some (False, [], trace_goal @ [ROS_ERROR ''Collision on target''])
                | Some False \<Rightarrow>
                    (let trace_start =
                           trace_goal @ [FootprintCost start2D] @ footprintCost_log P
                     in case endpoint_in_collision P start2D of
                          None \<Rightarrow> None
                        | Some True \<Rightarrow>
                            Some (False, [], trace_start @ [ROS_ERROR ''Collision on start''])
                        | Some False \<Rightarrow>
                            makePlan_search P bounds trace_start))"

subsection \<open>Reading a result\<close>

definition returned_flag :: "(bool \<times> PoseStamped list \<times> event list) option \<Rightarrow> bool option" where
  "returned_flag r = map_option fst r"

definition returned_plan ::
  "(bool \<times> PoseStamped list \<times> event list) option \<Rightarrow> PoseStamped list option" where
  "returned_plan r = map_option (fst \<circ> snd) r"

definition returned_trace ::
  "(bool \<times> PoseStamped list \<times> event list) option \<Rightarrow> event list option" where
  "returned_trace r = map_option (snd \<circ> snd) r"

text \<open>The events by which a planner is selected or invoked.\<close>

fun planner_event :: "event \<Rightarrow> bool" where
  "planner_event (SetPlanner _) = True"
| "planner_event (Solve _) = True"
| "planner_event _ = False"

fun footprint_event :: "event \<Rightarrow> bool" where
  "footprint_event (FootprintCost _) = True"
| "footprint_event _ = False"

fun fatal_event :: "event \<Rightarrow> bool" where
  "fatal_event (ROS_FATAL _) = True"
| "fatal_event _ = False"

text \<open>The bounds that a run hands to the state space.\<close>

fun bounds_set :: "event list \<Rightarrow> RealVectorBounds list" where
  "bounds_set [] = []"
| "bounds_set (SetBounds b # es) = b # bounds_set es"
| "bounds_set (e # es) = bounds_set es"

text \<open>The events of a run up to the first call of the solver.\<close>

fun until_solve :: "event list \<Rightarrow> event list" where
  "until_solve [] = []"
| "until_solve (Solve t # es) = [Solve t]"
| "until_solve (e # es) = e # until_solve es"

text \<open>
  The checks of \<^verbatim>\<open>makePlan\<close> that precede the planner selection: the object is
  initialized, the goal is in the frame of the map, neither endpoint test fires, and
  the two scoped states satisfy the bounds.
\<close>

definition passes_checks :: "OMPLPlannerBase \<Rightarrow> PoseStamped \<Rightarrow> PoseStamped \<Rightarrow> bool" where
  "passes_checks P0 start goal =
     (let P = fst (readParameters P0);
          bounds = map_bounds (getCostmap P)
      in initialized P0 \<and> frame_id goal = getGlobalFrameID P
         \<and> endpoint_in_collision P (convert_Pose_Pose2D (tf_yaw P) (pose goal)) = Some False
         \<and> endpoint_in_collision P (convert_Pose_Pose2D (tf_yaw P) (pose start)) = Some False
         \<and> satisfiesBounds bounds (ompl_allocState P 0)
         \<and> satisfiesBounds bounds (ompl_allocState P 1))"

text \<open>
  Every gap of the path needs fewer than \<open>INT_MAX\<close> insertions at the spacing
  \<open>max_dist\<close>, so that \<^verbatim>\<open>(int)num_insertions\<close> and the counter \<open>j\<close> stay within
  the range of an \<^verbatim>\<open>int\<close>.
\<close>

definition insertions_fit :: "real \<Rightarrow> Pose2D list \<Rightarrow> bool" where
  "insertions_fit max_dist path =
     (\<forall>i. Suc i < length path \<longrightarrow>
        \<lceil>frame_distance (path ! i) (path ! Suc i) / max_dist\<rceil> < INT_MAX)"

text \<open>A path in which consecutive frames are at most \<open>m\<close> apart.\<close>

fun path_dense :: "real \<Rightarrow> Pose2D list \<Rightarrow> bool" where
  "path_dense m (a # b # xs) = (frame_distance a b \<le> m \<and> path_dense m (b # xs))"
| "path_dense m _ = True"

subsection \<open>A concrete planner object\<close>

text \<open>
  A planner over a map of 20 by 20 metres with its origin at (0, 0), a triangular
  footprint, an environment of cost zero, a frame spacing of 3 and a solver that
  answers every request with the two states (0, 0, 0) and (10, 0, 0). The yaw of every
  orientation is read as 0, a yaw is turned into the rotation about the z axis, and a
  state is allocated with all its components zero.
  The members hold the values that \<^verbatim>\<open>readParameters\<close> assigns.
\<close>

definition demo_params :: ParamServer where
  "demo_params =
     \<lparr> prm_max_dist_between_pathframes = Some 3,
       prm_max_footprint_cost = None,
       prm_relative_validity_check_resolution = None,
       prm_interpolate_path = None,
       prm_solver_maxtime = None,
       prm_global_planner_type = None \<rparr>"

definition demo_planner :: OMPLPlannerBase where
  "demo_planner =
     \<lparr> initialized = True,
       getCostmap = \<lparr> getOriginX = 0, getOriginY = 0,
                      getSizeInMetersX = 20, getSizeInMetersY = 20 \<rparr>,
       getGlobalFrameID = ''map'',
       footprint_spec = [(1, 0), (0, 1), (0, 0)],
       world_model_footprintCost = (\<lambda>x y th. 0),
       publish_diagnostics = False,
       private_nh = demo_params,
       max_dist_between_pathframes = 3,
       max_footprint_cost = 256,
       relative_validity_check_resolution = 0.004,
       interpolate_path = True,
       solver_maxtime = 1,
       tf_yaw = (\<lambda>q. 0),
       tf_createQuaternionFromYaw =
         (\<lambda>yaw. \<lparr> quat_x = 0, quat_y = 0, quat_z = sin (yaw / 2), quat_w = cos (yaw / 2) \<rparr>),
       ompl_allocState = (\<lambda>k. \<lparr> getX = 0, getY = 0, getYaw = 0 \<rparr>),
       ompl_solution = (\<lambda>setup t. Some [\<lparr> getX = 0, getY = 0, getYaw = 0 \<rparr>,
                                          \<lparr> getX = 10, getY = 0, getYaw = 0 \<rparr>]) \<rparr>"

definition stamped_at :: "real \<Rightarrow> real \<Rightarrow> PoseStamped" where
  "stamped_at px py =
     \<lparr> frame_id = ''map'',
       pose = \<lparr> position_x = px, position_y = py, position_z = 0,
                orientation = \<lparr> quat_x = 0, quat_y = 0, quat_z = 0, quat_w = 1 \<rparr> \<rparr> \<rparr>"

definition frame_at :: "real \<Rightarrow> real \<Rightarrow> Pose2D" where
  "frame_at px py = \<lparr> pose_x = px, pose_y = py, pose_theta = 0 \<rparr>"

text \<open>
  The events with which every run of \<^verbatim>\<open>makePlan\<close> that passes the frame check
  begins: the warning of \<^verbatim>\<open>readParameters\<close>, if any, the bounds, the validity
  checker and its resolution.
\<close>

definition trace_setup :: "OMPLPlannerBase \<Rightarrow> event list" where
  "trace_setup P0 =
     snd (readParameters P0)
     @ [SetBounds (map_bounds (getCostmap P0)), SetStateValidityChecker,
        SetStateValidityCheckingResolution
          (relative_validity_check_resolution (fst (readParameters P0)))]"

text \<open>The same planner configured with a planner type that does not exist.\<close>

definition bogus_planner :: OMPLPlannerBase where
  "bogus_planner =
     demo_planner \<lparr> private_nh := demo_params \<lparr> prm_global_planner_type := Some ''Bogus'' \<rparr> \<rparr>"

text \<open>
  The same planner in an environment whose footprint cost is \<open>c\<close> at the goal
  position \<open>x = 10\<close> and zero elsewhere, with a solver that finds no path.
\<close>

definition goal_cost_planner :: "real \<Rightarrow> OMPLPlannerBase" where
  "goal_cost_planner c =
     demo_planner \<lparr> world_model_footprintCost := (\<lambda>x y th. if x = 10 then c else 0),
                    ompl_solution := (\<lambda>setup t. None) \<rparr>"

text \<open>The same planner without a footprint.\<close>

definition no_footprint_planner :: OMPLPlannerBase where
  "no_footprint_planner = demo_planner \<lparr> footprint_spec := [] \<rparr>"

text \<open>The same planner on a map of 10 by 10 metres whose origin is at (1, 0).\<close>

definition offset_map_planner :: OMPLPlannerBase where
  "offset_map_planner =
     demo_planner \<lparr> getCostmap := \<lparr> getOriginX = 1, getOriginY = 0,
                                    getSizeInMetersX = 10, getSizeInMetersY = 10 \<rparr> \<rparr>"

section \<open>Properties of the path densifier\<close>

subsection \<open>Auxiliary facts\<close>

lemma path_dense_nth:
  "path_dense m xs \<Longrightarrow> Suc i < length xs \<Longrightarrow> frame_distance (xs ! i) (xs ! Suc i) \<le> m"
proof (induction m xs arbitrary: i rule: path_dense.induct)
  case (1 m a b xs)
  then show ?case by (cases i) auto
qed auto

lemma nth_path_dense:
  "(\<And>i. Suc i < length xs \<Longrightarrow> frame_distance (xs ! i) (xs ! Suc i) \<le> m) \<Longrightarrow> path_dense m xs"
proof (induction m xs rule: path_dense.induct)
  case (1 m a b xs)
  have "frame_distance a b \<le> m" using "1.prems"[of 0] by simp
  moreover have "path_dense m (b # xs)"
  proof (rule "1.IH")
    fix i assume "Suc i < length (b # xs)"
    then show "frame_distance ((b # xs) ! i) ((b # xs) ! Suc i) \<le> m"
      using "1.prems"[of "Suc i"] by simp
  qed
  ultimately show ?case by simp
qed auto

lemma path_dense_append:
  "xs \<noteq> [] \<Longrightarrow> path_dense m xs \<Longrightarrow> path_dense m (last xs # ys) \<Longrightarrow> path_dense m (xs @ ys)"
  by (induction m xs rule: path_dense.induct) simp_all

lemma double_to_int_of_int:
  "double_to_int (of_int k) = Some n \<Longrightarrow> n = k"
  by (auto simp: double_to_int_def trunc_toward_zero_def Let_def split: if_splits)

lemma interpolate_pair_last:
  "interpolate_pair m a c = Some fs \<Longrightarrow> fs \<noteq> [] \<and> last fs = c"
  by (auto simp: interpolate_pair_def Let_def split: if_splits option.splits)

lemma interpolate_pair_close:
  "frame_distance a c \<le> m \<Longrightarrow> interpolate_pair m a c = Some [c]"
  by (simp add: interpolate_pair_def Let_def)

lemma normalize_angle_canonical: "canonical_heading (normalize_angle a)"
proof -
  define k where "k = \<lceil>(a - pi) / (2 * pi)\<rceil>"
  have "(a - pi) / (2 * pi) \<le> of_int k" and "of_int k - 1 < (a - pi) / (2 * pi)"
    unfolding k_def by linarith+
  then have "a - pi \<le> of_int k * (2 * pi)" and "(of_int k - 1) * (2 * pi) < a - pi"
    using pi_gt_zero by (simp_all add: field_simps)
  then show ?thesis
    unfolding canonical_heading_def normalize_angle_def k_def[symmetric]
    by (simp add: algebra_simps)
qed

lemma normalize_angle_0: "normalize_angle 0 = 0"
proof -
  have "\<lceil>(0 - pi) / (2 * pi)\<rceil> = (0::int)"
    by (simp add: ceiling_eq_iff)
  then show ?thesis by (simp add: normalize_angle_def)
qed

lemma interpolate_pair_headings:
  "interpolate_pair m a c = Some fs \<Longrightarrow> canonical_heading (pose_theta c) \<Longrightarrow>
   f \<in> set fs \<Longrightarrow> canonical_heading (pose_theta f)"
  by (auto simp: interpolate_pair_def Let_def temp_frame_def normalize_angle_canonical
      split: if_splits option.splits)

lemma frame_distance_step:
  assumes "pose_x b - pose_x a = dx" "pose_y b - pose_y a = dy"
  shows "frame_distance a b = sqrt (dx * dx + dy * dy)"
  using assms by (simp add: frame_distance_def)

lemma scaled_norm:
  assumes "0 < (q::real)"
  shows "sqrt ((dx / q) * (dx / q) + (dy / q) * (dy / q)) = sqrt (dx * dx + dy * dy) / q"
proof -
  have "(dx / q) * (dx / q) + (dy / q) * (dy / q) = (dx * dx + dy * dy) / (q * q)"
    by (simp add: add_divide_distrib)
  then have "sqrt ((dx / q) * (dx / q) + (dy / q) * (dy / q)) = sqrt (dx * dx + dy * dy) / sqrt (q * q)"
    by (simp add: real_sqrt_divide)
  then show ?thesis using assms by simp
qed

lemma step_le:
  fixes m d :: real
  assumes "0 < m" "m < d" "k = \<lceil>d / m\<rceil>"
  shows "0 < k" and "d / (of_int k + 1) \<le> m"
proof -
  have "1 < d / m" using assms by simp
  then have "1 < k" unfolding assms(3) by (simp add: less_ceiling_iff)
  then show "0 < k" by simp
  have "d / m \<le> of_int k" unfolding assms(3) by linarith
  then have "d \<le> of_int k * m" using assms(1) by (simp add: field_simps)
  also have "\<dots> \<le> (of_int k + 1) * m" using assms(1) by (simp add: algebra_simps)
  finally have "d \<le> m * (of_int k + 1)" by (simp add: mult.commute)
  moreover have "0 < real_of_int k + 1" using \<open>0 < k\<close> by simp
  ultimately show "d / (of_int k + 1) \<le> m" by (simp add: pos_divide_le_eq)
qed

text \<open>
  The chain of frames \<open>a + j * s\<close> for \<open>j\<close> up to \<open>n\<close>, closed by the frame \<open>c\<close> whose
  position is \<open>a + (n + 1) * s\<close>: every link has the length of the step \<open>s\<close>.
\<close>

lemma chain_dense:
  fixes n :: int
  assumes "0 \<le> j" "j \<le> n"
    and cx: "pose_x c = pose_x a + (of_int n + 1) * dx"
    and cy: "pose_y c = pose_y a + (of_int n + 1) * dy"
    and st: "sqrt (dx * dx + dy * dy) \<le> m"
  shows "path_dense m (temp_frame a dx dy dth j # map (temp_frame a dx dy dth) [j + 1..n] @ [c])"
  using assms(1,2)
proof (induction "nat (n - j)" arbitrary: j)
  case 0
  then have "j = n" by simp
  have "frame_distance (temp_frame a dx dy dth n) c = sqrt (dx * dx + dy * dy)"
    by (rule frame_distance_step) (simp_all add: temp_frame_def cx cy algebra_simps)
  then show ?case using st \<open>j = n\<close> by simp
next
  case (Suc k)
  then have lt: "j < n" by linarith
  then have up: "[j + 1..n] = (j + 1) # [j + 1 + 1..n]" by (simp add: upto_rec1)
  have "frame_distance (temp_frame a dx dy dth j) (temp_frame a dx dy dth (j + 1)) = sqrt (dx * dx + dy * dy)"
    by (rule frame_distance_step) (simp_all add: temp_frame_def algebra_simps)
  moreover have "path_dense m (temp_frame a dx dy dth (j + 1) # map (temp_frame a dx dy dth) [j + 1 + 1..n] @ [c])"
    using Suc lt by (intro Suc.hyps(1)) auto
  ultimately show ?case using st by (simp add: up)
qed

lemma interpolate_pair_dense:
  assumes "0 < m" "interpolate_pair m a c = Some fs"
  shows "path_dense m (a # fs)"
proof (cases "frame_distance a c \<le> m")
  case True
  then show ?thesis using assms by (auto simp: interpolate_pair_close)
next
  case False
  define d where "d = frame_distance a c"
  define k where "k = \<lceil>d / m\<rceil>"
  define q where "q = real_of_int k + 1"
  define dx where "dx = (pose_x c - pose_x a) / q"
  define dy where "dy = (pose_y c - pose_y a) / q"
  define dth where "dth = normalize_angle (pose_theta c - pose_theta a) / q"
  from False have md: "m < d" by (simp add: d_def)
  have kpos: "0 < k" and le: "d / (of_int k + 1) \<le> m"
    using step_le[OF assms(1) md k_def] by simp_all
  have qpos: "0 < q" using kpos by (simp add: q_def)
  from assms False have fs: "fs = map (temp_frame a dx dy dth) [1..k] @ [c]"
    by (auto simp: interpolate_pair_def Let_def d_def k_def q_def dx_def dy_def dth_def
        split: if_splits option.splits dest: double_to_int_of_int)
  have norm: "sqrt (dx * dx + dy * dy) = d / q"
    unfolding dx_def dy_def d_def frame_distance_def by (rule scaled_norm[OF qpos])
  then have st: "sqrt (dx * dx + dy * dy) \<le> m" using le by (simp add: q_def)
  have cx: "pose_x c = pose_x a + (of_int k + 1) * dx"
    using qpos by (simp add: dx_def q_def)
  have cy: "pose_y c = pose_y a + (of_int k + 1) * dy"
    using qpos by (simp add: dy_def q_def)
  have ch: "path_dense m (temp_frame a dx dy dth 0 # map (temp_frame a dx dy dth) [0 + 1..k] @ [c])"
    using kpos by (intro chain_dense[OF _ _ cx cy st]) simp_all
  have first: "frame_distance a (temp_frame a dx dy dth 1) = sqrt (dx * dx + dy * dy)"
    by (rule frame_distance_step) (simp_all add: temp_frame_def)
  have up: "[1..k] = 1 # [2..k]" using kpos by (simp add: upto_rec1)
  from ch have "path_dense m (temp_frame a dx dy dth 1 # map (temp_frame a dx dy dth) [2..k] @ [c])"
    by (simp add: up)
  then show ?thesis using first st by (simp add: fs up)
qed

lemma ipo_loop_shape:
  "ipoPath \<noteq> [] \<Longrightarrow> ipo_loop m ipoPath rest = Some out \<Longrightarrow>
   out \<noteq> [] \<and> hd out = hd ipoPath \<and> last out = last (ipoPath @ rest)
   \<and> length ipoPath + length rest \<le> length out"
proof (induction rest arbitrary: ipoPath)
  case Nil
  then show ?case by simp
next
  case (Cons c rest)
  from Cons.prems(2) obtain fs where
    fs: "interpolate_pair m (last ipoPath) c = Some fs"
    and rec: "ipo_loop m (ipoPath @ fs) rest = Some out"
    by (auto split: option.splits)
  from interpolate_pair_last[OF fs] have ne: "fs \<noteq> []" and l: "last fs = c" by simp_all
  have "ipoPath @ fs \<noteq> []" using Cons.prems(1) by simp
  from Cons.IH[OF this rec] ne l Cons.prems(1) show ?case
    by (cases fs) (auto simp: Suc_le_eq)
qed

lemma ipo_loop_dense:
  "0 < m \<Longrightarrow> ipoPath \<noteq> [] \<Longrightarrow> path_dense m ipoPath \<Longrightarrow>
   ipo_loop m ipoPath rest = Some out \<Longrightarrow> path_dense m out"
proof (induction rest arbitrary: ipoPath)
  case Nil
  then show ?case by simp
next
  case (Cons c rest)
  from Cons.prems(4) obtain fs where
    fs: "interpolate_pair m (last ipoPath) c = Some fs"
    and rec: "ipo_loop m (ipoPath @ fs) rest = Some out"
    by (auto split: option.splits)
  have "path_dense m (last ipoPath # fs)"
    by (rule interpolate_pair_dense[OF Cons.prems(1) fs])
  then have "path_dense m (ipoPath @ fs)"
    using Cons.prems(2,3) by (simp add: path_dense_append)
  moreover have "ipoPath @ fs \<noteq> []" using Cons.prems(2) by simp
  ultimately show ?case using Cons.IH[OF Cons.prems(1) _ _ rec] by simp
qed

lemma ipo_loop_already_dense:
  "ipoPath \<noteq> [] \<Longrightarrow> path_dense m (last ipoPath # rest) \<Longrightarrow>
   ipo_loop m ipoPath rest = Some (ipoPath @ rest)"
proof (induction rest arbitrary: ipoPath)
  case Nil
  then show ?case by simp
next
  case (Cons c rest)
  then have "interpolate_pair m (last ipoPath) c = Some [c]"
    by (simp add: interpolate_pair_close)
  moreover have "ipo_loop m (ipoPath @ [c]) rest = Some ((ipoPath @ [c]) @ rest)"
    using Cons.prems by (intro Cons.IH) simp_all
  ultimately show ?case by simp
qed

lemma ipo_loop_headings:
  "ipoPath \<noteq> [] \<Longrightarrow> ipo_loop m ipoPath rest = Some out \<Longrightarrow>
   \<forall>f \<in> set ipoPath \<union> set rest. canonical_heading (pose_theta f) \<Longrightarrow>
   f \<in> set out \<Longrightarrow> canonical_heading (pose_theta f)"
proof (induction rest arbitrary: ipoPath)
  case Nil
  then show ?case by simp
next
  case (Cons c rest)
  from Cons.prems(2) obtain fs where
    fs: "interpolate_pair m (last ipoPath) c = Some fs"
    and rec: "ipo_loop m (ipoPath @ fs) rest = Some out"
    by (auto split: option.splits)
  have "\<forall>g \<in> set fs. canonical_heading (pose_theta g)"
    using interpolate_pair_headings[OF fs] Cons.prems(3) by simp
  then have "\<forall>g \<in> set (ipoPath @ fs) \<union> set rest. canonical_heading (pose_theta g)"
    using Cons.prems(3) by auto
  moreover have "ipoPath @ fs \<noteq> []" using Cons.prems(1) by simp
  ultimately show ?case using Cons.IH[OF _ rec _ Cons.prems(4)] by blast
qed

lemma hd_tl_path: "2 \<le> length path \<Longrightarrow> [hd path] @ tl path = path \<and> path \<noteq> []"
  by (cases path) auto

text \<open>A round of the loop is defined whenever the insertion count fits an \<^verbatim>\<open>int\<close>.\<close>

lemma interpolate_pair_defined:
  assumes "0 < m" "frame_distance a c / m \<le> 2147483646"
  shows "\<exists>fs. interpolate_pair m a c = Some fs"
proof -
  define k where "k = \<lceil>frame_distance a c / m\<rceil>"
  have "0 \<le> frame_distance a c / m"
    using assms(1) by (simp add: frame_distance_def)
  then have "0 \<le> k" unfolding k_def by linarith
  moreover have "k \<le> 2147483646"
    using assms(2) unfolding k_def by (simp add: ceiling_le_iff)
  ultimately have "double_to_int (of_int k) = Some k" and "k \<noteq> INT_MAX"
    by (simp_all add: double_to_int_def trunc_toward_zero_def INT_MAX_def INT_MIN_def)
  then show ?thesis using assms(1)
    by (simp add: interpolate_pair_def Let_def k_def[symmetric])
qed

lemma ipo_loop_defined:
  "0 < m \<Longrightarrow> ipoPath \<noteq> [] \<Longrightarrow> path_dense (m * 2147483646) (last ipoPath # rest) \<Longrightarrow>
   \<exists>out. ipo_loop m ipoPath rest = Some out"
proof (induction rest arbitrary: ipoPath)
  case Nil
  then show ?case by simp
next
  case (Cons c rest)
  from Cons.prems(3) have "frame_distance (last ipoPath) c \<le> m * 2147483646" by simp
  then have "frame_distance (last ipoPath) c / m \<le> 2147483646"
    using Cons.prems(1) by (simp add: pos_divide_le_eq mult.commute)
  from interpolate_pair_defined[OF Cons.prems(1) this] obtain fs where
    fs: "interpolate_pair m (last ipoPath) c = Some fs" by blast
  from interpolate_pair_last[OF fs] have "fs \<noteq> []" and "last fs = c" by simp_all
  then have "path_dense (m * 2147483646) (last (ipoPath @ fs) # rest)"
    using Cons.prems(3) by simp
  moreover have "ipoPath @ fs \<noteq> []" using Cons.prems(2) by simp
  ultimately obtain out where "ipo_loop m (ipoPath @ fs) rest = Some out"
    using Cons.IH[OF Cons.prems(1)] by blast
  then show ?case using fs by simp
qed

text \<open>
  The densifier returns a path whenever the spacing is positive and no gap of the
  input needs more insertions than an \<^verbatim>\<open>int\<close> can count.
\<close>

lemma interpolatePathPose2D_defined:
  assumes "2 \<le> length path" and "0 < max_spacing"
    and "\<forall>i. Suc i < length path \<longrightarrow>
           frame_distance (path ! i) (path ! Suc i) \<le> max_spacing * 2147483646"
  shows "\<exists>out. interpolatePathPose2D max_spacing path = Some (True, out)"
proof -
  have "path_dense (max_spacing * 2147483646) path"
    using assms(3) by (intro nth_path_dense) simp
  then have "path_dense (max_spacing * 2147483646) (last [hd path] # tl path)"
    using hd_tl_path[OF assms(1)] by (cases path) auto
  from ipo_loop_defined[OF assms(2) _ this] obtain out where
    "ipo_loop max_spacing [hd path] (tl path) = Some out" by auto
  then show ?thesis using assms(1) by (simp add: interpolatePathPose2D_def)
qed

subsection \<open>The example of the spec\<close>

lemma sqrt_100: "sqrt 100 = 10"
  by (rule real_sqrt_unique) simp_all

lemma upto_1_4: "[1..4] = [1, 2, 3, 4::int]"
  by (simp add: upto_rec1)

text \<open>Frames (0, 0) and (10, 0) with a spacing of 3: four insertions, steps of 2.\<close>

lemma demo_densified:
  "interpolatePathPose2D 3 [frame_at 0 0, frame_at 10 0] =
     Some (True, [frame_at 0 0, frame_at 2 0, frame_at 4 0, frame_at 6 0, frame_at 8 0,
                  frame_at 10 0])"
  by (simp add: interpolatePathPose2D_def interpolate_pair_def frame_distance_def frame_at_def
      sqrt_100 double_to_int_def trunc_toward_zero_def INT_MAX_def INT_MIN_def upto_1_4
      temp_frame_def normalize_angle_0 Let_def)

lemma frame_distance_0_2: "frame_distance (frame_at 0 0) (frame_at 2 0) = 2"
proof -
  have "sqrt 4 = 2" by (rule real_sqrt_unique) simp_all
  then show ?thesis by (simp add: frame_distance_def frame_at_def)
qed

subsection \<open>Definedness in terms of the insertion counts\<close>

lemma insertions_fit_gap:
  assumes "0 < m" and "insertions_fit m path" and "Suc i < length path"
  shows "frame_distance (path ! i) (path ! Suc i) \<le> m * 2147483646"
proof -
  from assms(2,3) have "\<lceil>frame_distance (path ! i) (path ! Suc i) / m\<rceil> \<le> 2147483646"
    by (simp add: insertions_fit_def INT_MAX_def)
  then have "frame_distance (path ! i) (path ! Suc i) / m \<le> 2147483646"
    by (simp add: ceiling_le_iff)
  then show ?thesis using assms(1) by (simp add: pos_divide_le_eq mult.commute)
qed

lemma interpolatePathPose2D_fits:
  assumes "2 \<le> length path" and "0 < max_spacing" and "insertions_fit max_spacing path"
  shows "\<exists>out. interpolatePathPose2D max_spacing path = Some (True, out)"
  using assms by (intro interpolatePathPose2D_defined) (auto intro: insertions_fit_gap)

subsection \<open>Headings that are renormalised\<close>

text \<open>An angle in the \<open>k\<close>-th turn is normalised by subtracting \<open>k\<close> full turns.\<close>

lemma normalize_angle_turn:
  assumes "(2 * of_int k - 1) * pi < a" and "a \<le> (2 * of_int k + 1) * pi"
  shows "normalize_angle a = a - 2 * pi * of_int k"
proof -
  have low: "(of_int k - 1) * (2 * pi) = (2 * of_int k - 1) * pi - pi"
    and high: "of_int k * (2 * pi) = (2 * of_int k + 1) * pi - pi"
    by (simp_all add: algebra_simps)
  have "(of_int k - 1) * (2 * pi) < a - pi" using assms(1) low by linarith
  then have "of_int k - 1 < (a - pi) / (2 * pi)"
    using pi_gt_zero by (simp add: pos_less_divide_eq)
  moreover have "a - pi \<le> of_int k * (2 * pi)" using assms(2) high by linarith
  then have "(a - pi) / (2 * pi) \<le> of_int k"
    using pi_gt_zero by (simp add: pos_divide_le_eq)
  ultimately have "\<lceil>(a - pi) / (2 * pi)\<rceil> = k"
    by (rule ceiling_unique)
  then show ?thesis by (simp add: normalize_angle_def)
qed

lemma sqrt_16: "sqrt 16 = 4"
  by (rule real_sqrt_unique) simp_all

lemma upto_1_2: "[1..2] = [1, 2::int]"
  by (simp add: upto_rec1)

text \<open>
  From (0, 0) with heading \<open>\<pi>\<close> to (4, 0) with heading \<open>-\<pi>/2\<close> at a spacing of 3:
  the normalised difference of the headings is \<open>\<pi>/2\<close>, two frames are inserted, and
  their headings \<open>\<pi> + \<pi>/6\<close> and \<open>\<pi> + \<pi>/3\<close> pass \<open>\<pi>\<close> and are renormalised to
  \<open>-5\<pi>/6\<close> and \<open>-2\<pi>/3\<close>.
\<close>

lemma turning_pair:
  "interpolate_pair 3 \<lparr> pose_x = 0, pose_y = 0, pose_theta = pi \<rparr>
                      \<lparr> pose_x = 4, pose_y = 0, pose_theta = - (pi / 2) \<rparr>
   = Some [\<lparr> pose_x = 4 / 3, pose_y = 0, pose_theta = - (5 * pi / 6) \<rparr>,
           \<lparr> pose_x = 8 / 3, pose_y = 0, pose_theta = - (2 * pi / 3) \<rparr>,
           \<lparr> pose_x = 4, pose_y = 0, pose_theta = - (pi / 2) \<rparr>]"
proof -
  have d: "frame_distance \<lparr> pose_x = 0, pose_y = 0, pose_theta = pi \<rparr>
             \<lparr> pose_x = 4, pose_y = 0, pose_theta = - (pi / 2) \<rparr> = 4"
    by (simp add: frame_distance_def sqrt_16)
  have n: "\<lceil>4 / 3 :: real\<rceil> = 2" by (simp add: ceiling_eq_iff)
  have "normalize_angle (- (3 * pi / 2)) = - (3 * pi / 2) - 2 * pi * of_int (- 1)"
    by (rule normalize_angle_turn) (use pi_gt_zero in simp_all)
  then have diff: "normalize_angle (- (3 * pi / 2)) = pi / 2" by simp
  have "normalize_angle (pi + pi / 6) = pi + pi / 6 - 2 * pi * of_int 1"
    by (rule normalize_angle_turn) (use pi_gt_zero in simp_all)
  then have f1: "temp_frame \<lparr> pose_x = 0, pose_y = 0, pose_theta = pi \<rparr> (4 / 3) 0 (pi / 6) 1
      = \<lparr> pose_x = 4 / 3, pose_y = 0, pose_theta = - (5 * pi / 6) \<rparr>"
    by (simp add: temp_frame_def)
  have "normalize_angle (pi + pi / 3) = pi + pi / 3 - 2 * pi * of_int 1"
    by (rule normalize_angle_turn) (use pi_gt_zero in simp_all)
  then have f2: "temp_frame \<lparr> pose_x = 0, pose_y = 0, pose_theta = pi \<rparr> (4 / 3) 0 (pi / 6) 2
      = \<lparr> pose_x = 8 / 3, pose_y = 0, pose_theta = - (2 * pi / 3) \<rparr>"
    by (simp add: temp_frame_def)
  from f1 f2 show ?thesis
    unfolding interpolate_pair_def Let_def d
    by (simp add: diff n double_to_int_def trunc_toward_zero_def INT_MAX_def INT_MIN_def
        upto_1_2)
qed

lemma turning_densified:
  "interpolatePathPose2D 3
     [\<lparr> pose_x = 0, pose_y = 0, pose_theta = pi \<rparr>,
      \<lparr> pose_x = 4, pose_y = 0, pose_theta = - (pi / 2) \<rparr>]
   = Some (True,
       [\<lparr> pose_x = 0, pose_y = 0, pose_theta = pi \<rparr>,
        \<lparr> pose_x = 4 / 3, pose_y = 0, pose_theta = - (5 * pi / 6) \<rparr>,
        \<lparr> pose_x = 8 / 3, pose_y = 0, pose_theta = - (2 * pi / 3) \<rparr>,
        \<lparr> pose_x = 4, pose_y = 0, pose_theta = - (pi / 2) \<rparr>])"
  by (simp add: interpolatePathPose2D_def turning_pair)

lemma canonical_heading_pi: "canonical_heading pi"
  using pi_gt_zero unfolding canonical_heading_def by linarith

lemma canonical_heading_minus_half_pi: "canonical_heading (- (pi / 2))"
  using pi_gt_zero unfolding canonical_heading_def by linarith

text \<open>A gap of \<open>10\<^sup>1\<^sup>0\<close> at a spacing of 1 needs more insertions than an \<^verbatim>\<open>int\<close> holds.\<close>

lemma huge_gap_distance:
  "frame_distance (frame_at 0 0) (frame_at 10000000000 0) = 10000000000"
proof -
  have "sqrt (10000000000 * 10000000000) = (10000000000 :: real)"
    by (rule real_sqrt_unique) simp_all
  then show ?thesis by (simp add: frame_distance_def frame_at_def)
qed

lemma huge_gap_undefined:
  "interpolatePathPose2D 1 [frame_at 0 0, frame_at 10000000000 0] = None"
  by (simp add: interpolatePathPose2D_def interpolate_pair_def huge_gap_distance
      double_to_int_def trunc_toward_zero_def INT_MAX_def INT_MIN_def Let_def)

subsection \<open>Claims about the densifier\<close>

text \<open>
  Claim C4, as the spec states it: for every input path with at least 2 frames and
  every positive \<open>max_spacing\<close>, every pair of consecutive frames in the output of the
  densifier is at most \<open>max_spacing\<close> apart. For the frames (0, 0) and
  (\<open>10\<^sup>1\<^sup>0\<close>, 0) and a spacing of 1 the number of insertions is \<open>10\<^sup>1\<^sup>0\<close>, which the
  \<^verbatim>\<open>int\<close> of the inner loop cannot hold: the conversion is undefined and the
  densifier has no output for this input.
\<close>

theorem densifier_has_no_output_for_huge_gap:
  "2 \<le> length [frame_at 0 0, frame_at 10000000000 0] \<and> (0::real) < 1
   \<and> \<lceil>frame_distance (frame_at 0 0) (frame_at 10000000000 0) / 1\<rceil> = 10000000000
   \<and> INT_MAX = 2147483647
   \<and> interpolatePathPose2D 1 [frame_at 0 0, frame_at 10000000000 0] = None"
  by (simp add: huge_gap_distance huge_gap_undefined INT_MAX_def)

text \<open>
  Claim C4, amended: for every input path with at least 2 frames and every positive
  \<open>max_spacing\<close> such that every gap of the input needs fewer than \<open>INT_MAX\<close>
  insertions, the densifier returns a path, and every pair of consecutive frames in it
  has planar distance (the heading ignored) at most \<open>max_spacing\<close>.
\<close>

theorem densifier_spacing:
  assumes "2 \<le> length path" and "0 < max_spacing"
    and "insertions_fit max_spacing path"
  shows "\<exists>out. interpolatePathPose2D max_spacing path = Some (True, out)
           \<and> (\<forall>i. Suc i < length out \<longrightarrow>
                 frame_distance (out ! i) (out ! Suc i) \<le> max_spacing)"
proof -
  from interpolatePathPose2D_fits[OF assms] obtain out where
    out: "interpolatePathPose2D max_spacing path = Some (True, out)" by blast
  with assms(1) have loop: "ipo_loop max_spacing [hd path] (tl path) = Some out"
    by (auto simp: interpolatePathPose2D_def split: option.splits)
  have "path_dense max_spacing out"
    by (rule ipo_loop_dense[OF assms(2) _ _ loop]) simp_all
  then have "\<forall>i. Suc i < length out \<longrightarrow>
      frame_distance (out ! i) (out ! Suc i) \<le> max_spacing"
    by (simp add: path_dense_nth)
  with out show ?thesis by blast
qed

theorem densifier_spacing_witness:
  "2 \<le> length [frame_at 0 0, frame_at 10 0] \<and> (0::real) < 3
   \<and> \<lceil>frame_distance (frame_at 0 0) (frame_at 10 0) / 3\<rceil> = 4
   \<and> interpolatePathPose2D 3 [frame_at 0 0, frame_at 10 0]
       = Some (True, [frame_at 0 0, frame_at 2 0, frame_at 4 0, frame_at 6 0, frame_at 8 0,
                      frame_at 10 0])
   \<and> frame_distance (frame_at 0 0) (frame_at 2 0) \<le> 3
   \<and> frame_distance (frame_at 8 0) (frame_at 10 0) \<le> 3"
proof -
  have len: "2 \<le> length [frame_at 0 0, frame_at 10 0]" and pos: "(0::real) < 3"
    by simp_all
  have gap: "frame_distance (frame_at 0 0) (frame_at 10 0) = 10"
    by (simp add: frame_distance_def frame_at_def sqrt_100)
  have count: "\<lceil>frame_distance (frame_at 0 0) (frame_at 10 0) / 3\<rceil> = 4"
    by (simp add: gap ceiling_eq_iff)
  have fit: "insertions_fit 3 [frame_at 0 0, frame_at 10 0]"
    by (simp add: insertions_fit_def count INT_MAX_def)
  from densifier_spacing[OF len pos fit] obtain out where
    out: "interpolatePathPose2D 3 [frame_at 0 0, frame_at 10 0] = Some (True, out)"
    and dense: "\<forall>i. Suc i < length out \<longrightarrow> frame_distance (out ! i) (out ! Suc i) \<le> 3"
    by blast
  from out have out_eq: "out = [frame_at 0 0, frame_at 2 0, frame_at 4 0, frame_at 6 0,
      frame_at 8 0, frame_at 10 0]"
    by (simp add: demo_densified)
  from dense[rule_format, of 0] have "frame_distance (frame_at 0 0) (frame_at 2 0) \<le> 3"
    by (simp add: out_eq)
  moreover from dense[rule_format, of 4]
  have "frame_distance (frame_at 8 0) (frame_at 10 0) \<le> 3"
    by (simp add: out_eq)
  ultimately show ?thesis using count demo_densified by simp
qed

text \<open>
  Claim C5. For every input path with at least 2 frames, the first and the last frame
  of the densifier's output equal the first and the last frame of the input, and the
  output has at least as many frames as the input. The densifier reports success.
\<close>

theorem densifier_endpoints:
  assumes "2 \<le> length path"
    and "interpolatePathPose2D max_spacing path = Some (ok, out)"
  shows "ok \<and> hd out = hd path \<and> last out = last path \<and> length path \<le> length out"
proof -
  from assms have ok: "ok" and loop: "ipo_loop max_spacing [hd path] (tl path) = Some out"
    by (auto simp: interpolatePathPose2D_def split: option.splits)
  from ipo_loop_shape[OF _ loop] hd_tl_path[OF assms(1)] ok show ?thesis
    by (cases path) auto
qed

theorem densifier_endpoints_witness:
  "2 \<le> length [frame_at 0 0, frame_at 10 0]
   \<and> interpolatePathPose2D 3 [frame_at 0 0, frame_at 10 0]
       = Some (True, [frame_at 0 0, frame_at 2 0, frame_at 4 0, frame_at 6 0, frame_at 8 0,
                      frame_at 10 0])
   \<and> hd [frame_at 0 0, frame_at 2 0, frame_at 4 0, frame_at 6 0, frame_at 8 0, frame_at 10 0]
       = hd [frame_at 0 0, frame_at 10 0]
   \<and> last [frame_at 0 0, frame_at 2 0, frame_at 4 0, frame_at 6 0, frame_at 8 0, frame_at 10 0]
       = last [frame_at 0 0, frame_at 10 0]
   \<and> length [frame_at 0 0, frame_at 10 0]
       \<le> length [frame_at 0 0, frame_at 2 0, frame_at 4 0, frame_at 6 0, frame_at 8 0,
                  frame_at 10 0]"
proof -
  have len: "2 \<le> length [frame_at 0 0, frame_at 10 0]" by simp
  from densifier_endpoints[OF len demo_densified] show ?thesis
    using demo_densified by simp
qed

text \<open>
  Claim C6. Densification is idempotent: for every path with at least 2 frames in which
  every consecutive pair is already within \<open>max_spacing\<close>, the densifier returns a
  sequence identical to its input.
\<close>

theorem densifier_idempotent:
  assumes "2 \<le> length path"
    and "\<forall>i. Suc i < length path \<longrightarrow> frame_distance (path ! i) (path ! Suc i) \<le> max_spacing"
  shows "interpolatePathPose2D max_spacing path = Some (True, path)"
proof -
  have "path_dense max_spacing path"
    using assms(2) by (intro nth_path_dense) simp
  then have "path_dense max_spacing (last [hd path] # tl path)"
    using hd_tl_path[OF assms(1)] by (cases path) auto
  then have "ipo_loop max_spacing [hd path] (tl path) = Some ([hd path] @ tl path)"
    by (intro ipo_loop_already_dense) simp_all
  then show ?thesis using assms(1) hd_tl_path[OF assms(1)]
    by (simp add: interpolatePathPose2D_def)
qed

theorem densifier_idempotent_witness:
  "2 \<le> length [frame_at 0 0, frame_at 2 0]
   \<and> frame_distance (frame_at 0 0) (frame_at 2 0) \<le> 3
   \<and> interpolatePathPose2D 3 [frame_at 0 0, frame_at 2 0]
       = Some (True, [frame_at 0 0, frame_at 2 0])"
proof -
  have len: "2 \<le> length [frame_at 0 0, frame_at 2 0]" by simp
  have gaps: "\<forall>i. Suc i < length [frame_at 0 0, frame_at 2 0] \<longrightarrow>
      frame_distance ([frame_at 0 0, frame_at 2 0] ! i) ([frame_at 0 0, frame_at 2 0] ! Suc i) \<le> 3"
    by (simp add: frame_distance_0_2)
  from densifier_idempotent[OF len gaps] show ?thesis
    by (simp add: frame_distance_0_2)
qed

text \<open>
  Claim C9. For every input path with at least 2 frames, every heading in the
  densifier's output lies in the canonical range \<open>(-\<pi>, \<pi>]\<close>. The input is a path of
  poses, whose headings lie in the canonical range: \<^verbatim>\<open>makePlan\<close> builds each of them
  with a conversion that normalises the heading. Every output that the densifier
  returns then has canonical headings only, and it returns one whenever the spacing
  is positive and the insertion counts fit.
\<close>

theorem densifier_headings:
  assumes "2 \<le> length path"
    and "\<forall>f \<in> set path. canonical_heading (pose_theta f)"
  shows "(\<forall>ok out. interpolatePathPose2D max_spacing path = Some (ok, out) \<longrightarrow>
            (\<forall>f \<in> set out. canonical_heading (pose_theta f)))
       \<and> (0 < max_spacing \<and> insertions_fit max_spacing path \<longrightarrow>
            (\<exists>out. interpolatePathPose2D max_spacing path = Some (True, out)))"
proof (intro conjI allI impI)
  fix ok out
  assume res: "interpolatePathPose2D max_spacing path = Some (ok, out)"
  with assms(1) have loop: "ipo_loop max_spacing [hd path] (tl path) = Some out"
    by (auto simp: interpolatePathPose2D_def split: option.splits)
  have "set [hd path] \<union> set (tl path) = set path"
    using hd_tl_path[OF assms(1)] by (cases path) auto
  then have "\<forall>f \<in> set [hd path] \<union> set (tl path). canonical_heading (pose_theta f)"
    using assms(2) by simp
  from ipo_loop_headings[OF _ loop this]
  show "\<forall>f \<in> set out. canonical_heading (pose_theta f)" by simp
next
  assume "0 < max_spacing \<and> insertions_fit max_spacing path"
  then show "\<exists>out. interpolatePathPose2D max_spacing path = Some (True, out)"
    using interpolatePathPose2D_fits[OF assms(1)] by blast
qed

theorem densifier_headings_witness:
  "2 \<le> length [\<lparr> pose_x = 0, pose_y = 0, pose_theta = pi \<rparr>,
                \<lparr> pose_x = 4, pose_y = 0, pose_theta = - (pi / 2) \<rparr>]
   \<and> canonical_heading pi \<and> canonical_heading (- (pi / 2))
   \<and> interpolatePathPose2D 3
        [\<lparr> pose_x = 0, pose_y = 0, pose_theta = pi \<rparr>,
         \<lparr> pose_x = 4, pose_y = 0, pose_theta = - (pi / 2) \<rparr>]
      = Some (True,
          [\<lparr> pose_x = 0, pose_y = 0, pose_theta = pi \<rparr>,
           \<lparr> pose_x = 4 / 3, pose_y = 0, pose_theta = - (5 * pi / 6) \<rparr>,
           \<lparr> pose_x = 8 / 3, pose_y = 0, pose_theta = - (2 * pi / 3) \<rparr>,
           \<lparr> pose_x = 4, pose_y = 0, pose_theta = - (pi / 2) \<rparr>])
   \<and> canonical_heading (- (5 * pi / 6))
   \<and> canonical_heading (- (2 * pi / 3))"
proof -
  have len: "2 \<le> length [\<lparr> pose_x = 0, pose_y = 0, pose_theta = pi \<rparr>,
                \<lparr> pose_x = 4, pose_y = 0, pose_theta = - (pi / 2) \<rparr>]"
    by simp
  have heads: "\<forall>f \<in> set [\<lparr> pose_x = 0, pose_y = 0, pose_theta = pi \<rparr>,
                \<lparr> pose_x = 4, pose_y = 0, pose_theta = - (pi / 2) \<rparr>].
      canonical_heading (pose_theta f)"
    by (simp add: canonical_heading_pi canonical_heading_minus_half_pi)
  note out = densifier_headings[OF len heads, of 3, THEN conjunct1, rule_format,
      OF turning_densified]
  have "canonical_heading
      (pose_theta \<lparr> pose_x = 4 / 3, pose_y = 0, pose_theta = - (5 * pi / 6) \<rparr>)"
    by (rule out) simp
  moreover have "canonical_heading
      (pose_theta \<lparr> pose_x = 8 / 3, pose_y = 0, pose_theta = - (2 * pi / 3) \<rparr>)"
    by (rule out) simp
  ultimately have "canonical_heading (- (5 * pi / 6))" and "canonical_heading (- (2 * pi / 3))"
    by simp_all
  then show ?thesis
    using turning_densified canonical_heading_pi canonical_heading_minus_half_pi by simp
qed

section \<open>Properties of the orchestrator\<close>

subsection \<open>Parameters, footprint and selection\<close>

lemma readParameters_fields:
  "initialized (fst (readParameters P)) = initialized P"
  "getCostmap (fst (readParameters P)) = getCostmap P"
  "getGlobalFrameID (fst (readParameters P)) = getGlobalFrameID P"
  "footprint_spec (fst (readParameters P)) = footprint_spec P"
  "world_model_footprintCost (fst (readParameters P)) = world_model_footprintCost P"
  "private_nh (fst (readParameters P)) = private_nh P"
  "tf_yaw (fst (readParameters P)) = tf_yaw P"
  "ompl_allocState (fst (readParameters P)) = ompl_allocState P"
  by (simp_all add: readParameters_def Let_def)

lemma readParameters_solution:
  "ompl_solution (fst (readParameters P)) = ompl_solution P"
  by (simp add: readParameters_def Let_def)

lemma readParameters_events:
  "e \<in> set (snd (readParameters P)) \<Longrightarrow>
     \<not> planner_event e \<and> \<not> fatal_event e \<and> \<not> footprint_event e"
  by (auto simp: readParameters_def Let_def split: if_splits)

lemma readParameters_max_dist:
  "0 < max_dist_between_pathframes (fst (readParameters P))"
  by (simp add: readParameters_def Let_def)

lemma footprintCost_readParameters:
  "footprintCost (fst (readParameters P)) p = footprintCost P p"
  by (simp add: footprintCost_def readParameters_fields)

lemma footprintCost_log_readParameters:
  "footprintCost_log (fst (readParameters P)) = footprintCost_log P"
  by (simp add: footprintCost_log_def readParameters_fields)

lemma footprintCost_log_events:
  "e \<in> set (footprintCost_log P) \<Longrightarrow>
     \<not> planner_event e \<and> \<not> fatal_event e \<and> \<not> footprint_event e"
  by (auto simp: footprintCost_log_def split: if_splits)

lemma double_to_int_minus_one: "double_to_int (- 1) = Some (- 1)"
proof -
  have "\<lceil>- 1 :: real\<rceil> = - 1" using ceiling_of_int[of "- 1", where ?'a = real] by simp
  then show ?thesis
    by (simp add: double_to_int_def trunc_toward_zero_def INT_MIN_def INT_MAX_def)
qed

lemma no_footprint_cost:
  "length (footprint_spec P) < 3 \<Longrightarrow> footprintCost P p = - 1"
  by (simp add: footprintCost_def)

lemma no_footprint_collision:
  "length (footprint_spec P) < 3 \<Longrightarrow> endpoint_in_collision P p = Some True"
  by (simp add: endpoint_in_collision_def no_footprint_cost double_to_int_minus_one)

lemma sint32_range: "- 2147483648 \<le> sint (w :: 32 word) \<and> sint w \<le> 2147483647"
  using sint_ge[of w] sint_lt[of w] by simp

lemma map_bounds_eq:
  "map_bounds c =
     \<lparr> bounds_low = [- getOriginX c, - getOriginY c],
       bounds_high = [getSizeInMetersX c - getOriginX c, getSizeInMetersY c - getOriginY c] \<rparr>"
  by (simp add: map_bounds_def Let_def)

text \<open>
  Every path that \<^verbatim>\<open>makePlan\<close> hands to the densifier has canonical headings: each
  frame comes out of a conversion that normalises the heading.
\<close>

lemma converted_path_canonical:
  "f \<in> set (map convert_State_Pose2D ompl_path) \<Longrightarrow> canonical_heading (pose_theta f)"
  by (auto simp: convert_State_Pose2D_def normalize_angle_canonical)

subsection \<open>The shape of a trace\<close>

text \<open>
  The events that each phase of \<^verbatim>\<open>makePlan\<close> contributes.
\<close>

lemma setPlannerType_events:
  "setPlannerType P = (t, ptr, selection) \<Longrightarrow>
     t = param (prm_global_planner_type (private_nh P)) ''LBKPIECE'' \<and>
     (if t \<in> set supported_planner_types
      then ptr \<noteq> None \<and> selection = [SetPlanner ptr]
      else ptr = None \<and> selection = [ROS_FATAL t, SetPlanner None])"
  by (auto simp: setPlannerType_def supported_planner_types_def Let_def split: if_splits)

lemma publishPlan_events:
  "e \<in> set (publishPlan path) \<Longrightarrow> \<not> planner_event e \<and> \<not> fatal_event e \<and> \<not> footprint_event e"
  by (auto simp: publishPlan_def split: if_splits)

lemma interpolatePathPose2D_log_events:
  "e \<in> set (interpolatePathPose2D_log path) \<Longrightarrow>
     \<not> planner_event e \<and> \<not> fatal_event e \<and> \<not> footprint_event e"
  by (auto simp: interpolatePathPose2D_log_def split: if_splits)

lemma makePlan_solved_events:
  "makePlan_solved P ompl_path = Some (ok, plan, events) \<Longrightarrow> e \<in> set events \<Longrightarrow>
     \<not> planner_event e \<and> \<not> fatal_event e \<and> \<not> footprint_event e"
  by (auto simp: makePlan_solved_def Let_def split: if_splits option.splits prod.splits
      dest: publishPlan_events interpolatePathPose2D_log_events)

lemma makePlan_search_trace:
  assumes "makePlan_search P bounds trace = Some (ok, plan, trace')"
  shows "(\<not> (satisfiesBounds bounds (ompl_allocState P 0)
             \<and> satisfiesBounds bounds (ompl_allocState P 1))
          \<and> \<not> ok \<and> (\<exists>msg. trace' = trace @ [ROS_ERROR msg]))
       \<or> (satisfiesBounds bounds (ompl_allocState P 0)
          \<and> satisfiesBounds bounds (ompl_allocState P 1)
          \<and> (\<exists>t ptr selection later.
               setPlannerType P = (t, ptr, selection) \<and>
               trace' = trace
                  @ [SetStartAndGoalStates (ompl_allocState P 0) (ompl_allocState P 1)]
                  @ selection @ [Solve (solver_maxtime P)] @ later
               \<and> (\<forall>e \<in> set later.
                     \<not> planner_event e \<and> \<not> fatal_event e \<and> \<not> footprint_event e)))"
proof -
  obtain t ptr selection where sel: "setPlannerType P = (t, ptr, selection)"
    by (cases "setPlannerType P") auto
  show ?thesis
    using assms
    by (auto simp: makePlan_search_def sel Let_def
        split: if_splits option.splits prod.splits dest: makePlan_solved_events)
qed

text \<open>
  The five ways in which \<^verbatim>\<open>makePlan\<close> can return: not initialized, wrong frame, goal in
  collision, start in collision, or the search phase.
\<close>

lemma makePlan_cases:
  assumes run: "makePlan P0 start goal plan = Some (ok, plan', trace)"
    and P: "P = fst (readParameters P0)"
    and g: "goal2D = convert_Pose_Pose2D (tf_yaw P0) (pose goal)"
    and s: "start2D = convert_Pose_Pose2D (tf_yaw P0) (pose start)"
  shows "(\<not> initialized P0 \<and> \<not> ok \<and> (\<exists>msg. trace = [ROS_ERROR msg]))
       \<or> (initialized P0 \<and> frame_id goal \<noteq> getGlobalFrameID P0 \<and> \<not> ok
            \<and> (\<exists>msg. trace = snd (readParameters P0) @ [ROS_ERROR msg]))
       \<or> (initialized P0 \<and> frame_id goal = getGlobalFrameID P0
            \<and> endpoint_in_collision P goal2D = Some True \<and> \<not> ok
            \<and> (\<exists>msg. trace = trace_setup P0 @ [FootprintCost goal2D] @ footprintCost_log P0
                  @ [ROS_ERROR msg]))
       \<or> (initialized P0 \<and> frame_id goal = getGlobalFrameID P0
            \<and> endpoint_in_collision P goal2D = Some False
            \<and> endpoint_in_collision P start2D = Some True \<and> \<not> ok
            \<and> (\<exists>msg. trace = trace_setup P0 @ [FootprintCost goal2D] @ footprintCost_log P0
                  @ [FootprintCost start2D] @ footprintCost_log P0 @ [ROS_ERROR msg]))
       \<or> (initialized P0 \<and> frame_id goal = getGlobalFrameID P0
            \<and> endpoint_in_collision P goal2D = Some False
            \<and> endpoint_in_collision P start2D = Some False
            \<and> makePlan_search P (map_bounds (getCostmap P0))
                 (trace_setup P0 @ [FootprintCost goal2D] @ footprintCost_log P0
                    @ [FootprintCost start2D] @ footprintCost_log P0)
               = Some (ok, plan', trace))"
proof -
  obtain P' warned where rp: "readParameters P0 = (P', warned)"
    by (cases "readParameters P0")
  have P': "P' = P" using rp P by simp
  have fields: "getGlobalFrameID P = getGlobalFrameID P0" "getCostmap P = getCostmap P0"
    "tf_yaw P = tf_yaw P0" "footprintCost_log P = footprintCost_log P0"
    by (simp_all add: P readParameters_fields footprintCost_log_readParameters)
  show ?thesis
    using run
    by (auto simp: makePlan_def rp P' fields trace_setup_def g s Let_def
        split: if_splits option.splits bool.splits)
qed

lemma trace_setup_events:
  "e \<in> set (trace_setup P0) \<Longrightarrow> \<not> planner_event e \<and> \<not> fatal_event e \<and> \<not> footprint_event e"
  by (auto simp: trace_setup_def dest: readParameters_events)

lemma trace_setup_members:
  "SetBounds (map_bounds (getCostmap P0)) \<in> set (trace_setup P0)"
  "SetStateValidityChecker \<in> set (trace_setup P0)"
  by (simp_all add: trace_setup_def)

text \<open>
  A run that reaches the search phase has passed the checks, and a run that has passed
  the checks has a trace that goes through the planner selection.
\<close>

lemma makePlan_passes_or_rejects:
  assumes run: "makePlan P0 start goal plan = Some (ok, plan', trace)"
  shows "(\<not> passes_checks P0 start goal \<and> \<not> ok
            \<and> (\<forall>e \<in> set trace. \<not> fatal_event e \<and> \<not> planner_event e))
       \<or> (passes_checks P0 start goal
            \<and> (\<exists>pre t ptr selection later.
                  setPlannerType (fst (readParameters P0)) = (t, ptr, selection)
                  \<and> trace = pre @ selection
                       @ [Solve (solver_maxtime (fst (readParameters P0)))] @ later
                  \<and> SetBounds (map_bounds (getCostmap P0)) \<in> set pre
                  \<and> SetStateValidityChecker \<in> set pre
                  \<and> (\<forall>e \<in> set pre. \<not> fatal_event e \<and> \<not> planner_event e)
                  \<and> (\<forall>e \<in> set later. \<not> fatal_event e \<and> \<not> planner_event e)))"
proof -
  define P where "P = fst (readParameters P0)"
  define goal2D where "goal2D = convert_Pose_Pose2D (tf_yaw P0) (pose goal)"
  define start2D where "start2D = convert_Pose_Pose2D (tf_yaw P0) (pose start)"
  have fields: "getGlobalFrameID P = getGlobalFrameID P0" "getCostmap P = getCostmap P0"
    "tf_yaw P = tf_yaw P0"
    by (simp_all add: P_def readParameters_fields)
  have passes: "passes_checks P0 start goal \<longleftrightarrow>
      initialized P0 \<and> frame_id goal = getGlobalFrameID P0
      \<and> endpoint_in_collision P goal2D = Some False
      \<and> endpoint_in_collision P start2D = Some False
      \<and> satisfiesBounds (map_bounds (getCostmap P0)) (ompl_allocState P 0)
      \<and> satisfiesBounds (map_bounds (getCostmap P0)) (ompl_allocState P 1)"
    by (simp add: passes_checks_def Let_def P_def[symmetric] fields goal2D_def start2D_def)
  let ?checked = "trace_setup P0 @ [FootprintCost goal2D] @ footprintCost_log P0
                    @ [FootprintCost start2D] @ footprintCost_log P0"
  have quiet: "\<forall>e \<in> set ?checked. \<not> fatal_event e \<and> \<not> planner_event e"
    by (auto dest: trace_setup_events footprintCost_log_events)
  have warned: "\<forall>e \<in> set (snd (readParameters P0)). \<not> fatal_event e \<and> \<not> planner_event e"
    by (auto dest: readParameters_events)
  from makePlan_cases[OF run P_def goal2D_def start2D_def]
  show ?thesis
  proof (elim disjE conjE exE)
    fix msg assume "\<not> initialized P0" "\<not> ok" "trace = [ROS_ERROR msg]"
    then show ?thesis by (simp add: passes)
  next
    fix msg
    assume "frame_id goal \<noteq> getGlobalFrameID P0" "\<not> ok"
      "trace = snd (readParameters P0) @ [ROS_ERROR msg]"
    then show ?thesis using warned by (simp add: passes)
  next
    fix msg
    assume "endpoint_in_collision P goal2D = Some True" "\<not> ok"
      "trace = trace_setup P0 @ [FootprintCost goal2D] @ footprintCost_log P0 @ [ROS_ERROR msg]"
    then show ?thesis using quiet by (simp add: passes)
  next
    fix msg
    assume "endpoint_in_collision P start2D = Some True" "\<not> ok"
      "trace = trace_setup P0 @ [FootprintCost goal2D] @ footprintCost_log P0
         @ [FootprintCost start2D] @ footprintCost_log P0 @ [ROS_ERROR msg]"
    then show ?thesis using quiet by (simp add: passes)
  next
    assume checks: "initialized P0" "frame_id goal = getGlobalFrameID P0"
      "endpoint_in_collision P goal2D = Some False"
      "endpoint_in_collision P start2D = Some False"
      and search: "makePlan_search P (map_bounds (getCostmap P0)) ?checked
                     = Some (ok, plan', trace)"
    from makePlan_search_trace[OF search] show ?thesis
    proof (elim disjE conjE exE)
      fix msg
      assume "\<not> (satisfiesBounds (map_bounds (getCostmap P0)) (ompl_allocState P 0)
                \<and> satisfiesBounds (map_bounds (getCostmap P0)) (ompl_allocState P 1))"
        "\<not> ok" "trace = ?checked @ [ROS_ERROR msg]"
      then show ?thesis using quiet by (simp add: passes)
    next
      fix t ptr selection later
      assume inb: "satisfiesBounds (map_bounds (getCostmap P0)) (ompl_allocState P 0)"
        "satisfiesBounds (map_bounds (getCostmap P0)) (ompl_allocState P 1)"
        and sel: "setPlannerType P = (t, ptr, selection)"
        and tr: "trace = ?checked
                   @ [SetStartAndGoalStates (ompl_allocState P 0) (ompl_allocState P 1)]
                   @ selection @ [Solve (solver_maxtime P)] @ later"
        and later: "\<forall>e\<in>set later. \<not> planner_event e \<and> \<not> fatal_event e \<and> \<not> footprint_event e"
      let ?pre = "?checked @ [SetStartAndGoalStates (ompl_allocState P 0) (ompl_allocState P 1)]"
      have "passes_checks P0 start goal" using checks inb by (simp add: passes)
      moreover have "trace = ?pre @ selection @ [Solve (solver_maxtime P)] @ later"
        by (simp add: tr)
      moreover have "SetBounds (map_bounds (getCostmap P0)) \<in> set ?pre"
        and "SetStateValidityChecker \<in> set ?pre"
        using trace_setup_members[of P0] by simp_all
      moreover have "\<forall>e \<in> set ?pre. \<not> fatal_event e \<and> \<not> planner_event e"
        using quiet by auto
      moreover have "\<forall>e \<in> set later. \<not> fatal_event e \<and> \<not> planner_event e"
        using later by simp
      ultimately show ?thesis using sel unfolding P_def by blast
    qed
  qed
qed

subsection \<open>Definedness\<close>

text \<open>
  With interpolation enabled the plan is the prefix of the densified path that has as
  many frames as the raw path: the last loop of \<^verbatim>\<open>makePlan\<close> runs to
  \<open>num_frames_inpath\<close>, the frame count before the interpolation.
\<close>

lemma makePlan_solved_truncates:
  assumes "interpolate_path P"
    and "interpolatePathPose2D (max_dist_between_pathframes P)
           (map convert_State_Pose2D ompl_path) = Some (True, dense)"
  shows "\<exists>events. makePlan_solved P ompl_path
           = Some (True, map (stamp_pose P) (take (length ompl_path) dense), events)"
proof -
  from assms(2)
  have loop: "ipo_loop (max_dist_between_pathframes P) [hd (map convert_State_Pose2D ompl_path)]
                (tl (map convert_State_Pose2D ompl_path)) = Some dense"
    and len: "2 \<le> length (map convert_State_Pose2D ompl_path)"
    by (auto simp: interpolatePathPose2D_def split: if_splits option.splits)
  from ipo_loop_shape[OF _ loop] hd_tl_path[OF len]
  have "length ompl_path \<le> length dense"
    by (cases ompl_path) auto
  then show ?thesis using assms by (simp add: makePlan_solved_def Let_def)
qed

text \<open>
  \<^verbatim>\<open>makePlan\<close> returns whenever the two footprint costs convert to \<^verbatim>\<open>int\<close> and
  no gap of a solution path needs more insertions than an \<^verbatim>\<open>int\<close> can count.
\<close>

lemma makePlan_solved_defined:
  assumes "0 < max_dist_between_pathframes P"
    and "insertions_fit (max_dist_between_pathframes P) (map convert_State_Pose2D ompl_path)"
  shows "\<exists>r. makePlan_solved P ompl_path = Some r"
proof (cases "interpolate_path P \<and> 2 \<le> length ompl_path")
  case False
  then show ?thesis
    by (auto simp: makePlan_solved_def interpolatePathPose2D_def Let_def)
next
  case True
  let ?path = "map convert_State_Pose2D ompl_path"
  have len: "2 \<le> length ?path" using True by simp
  from interpolatePathPose2D_fits[OF len assms] obtain out where
    out: "interpolatePathPose2D (max_dist_between_pathframes P) ?path = Some (True, out)"
    by blast
  from makePlan_solved_truncates[OF _ out] True show ?thesis by auto
qed

lemma makePlan_defined:
  assumes "double_to_int (footprintCost P0 (convert_Pose_Pose2D (tf_yaw P0) (pose goal))) \<noteq> None"
    and "double_to_int (footprintCost P0 (convert_Pose_Pose2D (tf_yaw P0) (pose start))) \<noteq> None"
    and "\<forall>simple_setup t ompl_path. ompl_solution P0 simple_setup t = Some ompl_path \<longrightarrow>
           insertions_fit (max_dist_between_pathframes (fst (readParameters P0)))
             (map convert_State_Pose2D ompl_path)"
  shows "\<exists>r. makePlan P0 start goal plan = Some r"
proof -
  obtain P warned where rp: "readParameters P0 = (P, warned)"
    by (cases "readParameters P0")
  have P: "P = fst (readParameters P0)" using rp by simp
  have yaw: "tf_yaw P = tf_yaw P0" by (simp add: P readParameters_fields)
  have cost: "footprintCost P p = footprintCost P0 p" for p
    by (simp add: P footprintCost_readParameters)
  have sol: "ompl_solution P = ompl_solution P0" by (simp add: P readParameters_solution)
  have pos: "0 < max_dist_between_pathframes P" by (simp add: P readParameters_max_dist)
  have solved: "\<exists>r. makePlan_solved P ompl_path = Some r"
    if "ompl_solution P simple_setup t = Some ompl_path" for simple_setup t ompl_path
  proof -
    have "ompl_solution P0 simple_setup t = Some ompl_path"
      using that by (simp add: sol)
    then have "insertions_fit (max_dist_between_pathframes P)
        (map convert_State_Pose2D ompl_path)"
      using assms(3) unfolding P by blast
    then show ?thesis by (rule makePlan_solved_defined[OF pos])
  qed
  have search: "\<exists>r. makePlan_search P b tr = Some r" for b tr
  proof -
    obtain t ptr selection where sel: "setPlannerType P = (t, ptr, selection)"
      by (cases "setPlannerType P") auto
    show ?thesis
      using solved
      by (fastforce simp: makePlan_search_def sel Let_def split: option.splits)
  qed
  from assms(1,2) obtain cg cs where
    "endpoint_in_collision P (convert_Pose_Pose2D (tf_yaw P) (pose goal)) = Some cg"
    "endpoint_in_collision P (convert_Pose_Pose2D (tf_yaw P) (pose start)) = Some cs"
    by (auto simp: cost yaw endpoint_in_collision_def)
  then show ?thesis
    using search
    by (cases cg; cases cs) (auto simp: makePlan_def rp Let_def)
qed

subsection \<open>Runs of the concrete planner\<close>

lemmas eval_defs =
  readParameters_def demo_planner_def demo_params_def param_def map_bounds_def
  convert_Pose_Pose2D_def stamped_at_def frame_at_def normalize_angle_0
  endpoint_in_collision_def footprintCost_def footprintCost_log_def double_to_int_def
  trunc_toward_zero_def INT_MAX_def INT_MIN_def makePlan_search_def satisfiesBounds_def
  setPlannerType_def Let_def

lemmas solved_defs =
  makePlan_solved_def convert_State_Pose2D_def normalize_angle_0
  demo_densified[unfolded frame_at_def] publishPlan_def stamp_pose_def
  interpolatePathPose2D_log_def convert_Pose2D_Pose_def demo_planner_def Let_def

lemma demo_run:
  "makePlan demo_planner (stamped_at 0 0) (stamped_at 10 0) [] =
     Some (True, [stamped_at 0 0, stamped_at 2 0],
       [SetBounds \<lparr> bounds_low = [0, 0], bounds_high = [20, 20] \<rparr>,
        SetStateValidityChecker,
        SetStateValidityCheckingResolution 0.004,
        FootprintCost (frame_at 10 0), FootprintCost (frame_at 0 0),
        SetStartAndGoalStates \<lparr> getX = 0, getY = 0, getYaw = 0 \<rparr>
                              \<lparr> getX = 0, getY = 0, getYaw = 0 \<rparr>,
        SetPlanner (Some LBKPIECE1), Solve 1, SimplifySolution,
        PublishPlan [stamped_at 0 0, stamped_at 2 0]])"
  apply (simp add: makePlan_def)
  apply (simp add: eval_defs)
  apply (simp add: solved_defs)
  done

lemma bogus_run:
  "makePlan bogus_planner (stamped_at 0 0) (stamped_at 10 0) [] =
     Some (True, [stamped_at 0 0, stamped_at 2 0],
       [SetBounds \<lparr> bounds_low = [0, 0], bounds_high = [20, 20] \<rparr>,
        SetStateValidityChecker,
        SetStateValidityCheckingResolution 0.004,
        FootprintCost (frame_at 10 0), FootprintCost (frame_at 0 0),
        SetStartAndGoalStates \<lparr> getX = 0, getY = 0, getYaw = 0 \<rparr>
                              \<lparr> getX = 0, getY = 0, getYaw = 0 \<rparr>,
        ROS_FATAL ''Bogus'', SetPlanner None, Solve 1, SimplifySolution,
        PublishPlan [stamped_at 0 0, stamped_at 2 0]])"
  apply (simp add: makePlan_def bogus_planner_def)
  apply (simp add: eval_defs)
  apply (simp add: solved_defs)
  done



lemma offset_map_run:
  "makePlan offset_map_planner (stamped_at 5 5) (stamped_at 10 5) [] =
     Some (True, [stamped_at 0 0, stamped_at 2 0],
       [SetBounds \<lparr> bounds_low = [- 1, 0], bounds_high = [9, 10] \<rparr>,
        SetStateValidityChecker,
        SetStateValidityCheckingResolution 0.004,
        FootprintCost (frame_at 10 5), FootprintCost (frame_at 5 5),
        SetStartAndGoalStates \<lparr> getX = 0, getY = 0, getYaw = 0 \<rparr>
                              \<lparr> getX = 0, getY = 0, getYaw = 0 \<rparr>,
        SetPlanner (Some LBKPIECE1), Solve 1, SimplifySolution,
        PublishPlan [stamped_at 0 0, stamped_at 2 0]])"
  apply (simp add: makePlan_def offset_map_planner_def)
  apply (simp add: eval_defs)
  apply (simp add: solved_defs)
  done

lemma bogus_type:
  "param (prm_global_planner_type (private_nh bogus_planner)) ''LBKPIECE'' = ''Bogus''"
  by (simp add: bogus_planner_def demo_planner_def demo_params_def param_def)

lemma bogus_passes: "passes_checks bogus_planner (stamped_at 0 0) (stamped_at 10 0)"
  by (simp add: passes_checks_def bogus_planner_def eval_defs)

lemma goal_above_ceiling_cost:
  "footprintCost (goal_cost_planner c) (convert_State_Pose2D \<lparr> getX = 10, getY = 0, getYaw = 0 \<rparr>) = c"
  by (simp add: footprintCost_def goal_cost_planner_def demo_planner_def convert_State_Pose2D_def)

lemma goal_cost_ceiling: "sint (max_footprint_cost (goal_cost_planner c)) = 256"
  by (simp add: goal_cost_planner_def demo_planner_def)

subsection \<open>Claims about the orchestrator\<close>

text \<open>
  Claim C1: the position bounds of the state space that \<^verbatim>\<open>makePlan\<close> constructs are
  the extents of the map, \<open>[ox, ox + sx]\<close> and \<open>[oy, oy + sy]\<close>. The code computes the
  upper bound as size minus origin and the lower bound as upper bound minus size. For
  the map of 10 by 10 metres with origin (1, 0), which covers \<open>[1, 11]\<close> in x, the
  bounds that the run hands to the state space are \<open>[-1, 9]\<close> in x.
\<close>

theorem makePlan_bounds_of_offset_map:
  "map_bounds (getCostmap offset_map_planner)
     = \<lparr> bounds_low = [- 1, 0], bounds_high = [9, 10] \<rparr>
   \<and> map_option bounds_set
       (returned_trace (makePlan offset_map_planner (stamped_at 5 5) (stamped_at 10 5) []))
     = Some [\<lparr> bounds_low = [- 1, 0], bounds_high = [9, 10] \<rparr>]"
proof -
  have "map_bounds (getCostmap offset_map_planner)
     = \<lparr> bounds_low = [- 1, 0], bounds_high = [9, 10] \<rparr>"
    by (simp add: map_bounds_eq offset_map_planner_def demo_planner_def)
  moreover have "map_option bounds_set
       (returned_trace (makePlan offset_map_planner (stamped_at 5 5) (stamped_at 10 5) []))
     = Some [\<lparr> bounds_low = [- 1, 0], bounds_high = [9, 10] \<rparr>]"
    using offset_map_run by (simp add: returned_trace_def)
  ultimately show ?thesis by (rule conjI)
qed

text \<open>
  Claim C2: with interpolation enabled the plan returned by \<^verbatim>\<open>makePlan\<close> holds the
  whole densified path. For the raw path (0, 0), (10, 0) and a spacing of 3 the
  densified path has six frames and ends at (10, 0); the plan returned has the two
  frames (0, 0) and (2, 0).
\<close>

theorem makePlan_returns_prefix_of_densified_path:
  "interpolatePathPose2D 3 [frame_at 0 0, frame_at 10 0] =
     Some (True, [frame_at 0 0, frame_at 2 0, frame_at 4 0, frame_at 6 0, frame_at 8 0,
                  frame_at 10 0])
   \<and> returned_flag (makePlan demo_planner (stamped_at 0 0) (stamped_at 10 0) []) = Some True
   \<and> returned_plan (makePlan demo_planner (stamped_at 0 0) (stamped_at 10 0) [])
       = Some [stamped_at 0 0, stamped_at 2 0]"
  by (simp add: demo_densified demo_run returned_flag_def returned_plan_def)

text \<open>
  Claim C3, as the spec states it: a planner type that is not among the nine raises a
  fatal configuration error before any bounds or oracle construction and halts the
  planner construction. In the run below, up to the call of the solver, the bounds
  and the validity checker are set and both endpoints are checked before the fatal
  message is logged; the empty planner handle is then attached and the solver is
  called.
\<close>

theorem bogus_planner_type_reaches_solver:
  "map_option until_solve
     (returned_trace (makePlan bogus_planner (stamped_at 0 0) (stamped_at 10 0) []))
   = Some [SetBounds \<lparr> bounds_low = [0, 0], bounds_high = [20, 20] \<rparr>,
           SetStateValidityChecker,
           SetStateValidityCheckingResolution 0.004,
           FootprintCost (frame_at 10 0), FootprintCost (frame_at 0 0),
           SetStartAndGoalStates \<lparr> getX = 0, getY = 0, getYaw = 0 \<rparr>
                                 \<lparr> getX = 0, getY = 0, getYaw = 0 \<rparr>,
           ROS_FATAL ''Bogus'', SetPlanner None, Solve 1]"
  by (simp add: bogus_run returned_trace_def)

text \<open>
  Claim C3, amended: for every planner type that is not among the nine,
  \<^verbatim>\<open>setPlannerType\<close> logs a fatal error and constructs none of the nine planners. In
  \<^verbatim>\<open>makePlan\<close> every request that passes the checks before the planner selection
  logs the fatal error, after the bounds and the validity checker have been set and
  before any planner is attached or invoked; a request that one of those checks
  rejects fails without a fatal error and without reaching a planner.
\<close>

theorem unsupported_planner_type:
  assumes t: "planner_type = param (prm_global_planner_type (private_nh P0)) ''LBKPIECE''"
    and unsupported: "planner_type \<notin> set supported_planner_types"
    and run: "makePlan P0 start goal plan = Some (ok, plan', trace)"
  shows "fst (snd (setPlannerType P0)) = None
       \<and> ROS_FATAL planner_type \<in> set (snd (snd (setPlannerType P0)))
       \<and> (passes_checks P0 start goal \<longrightarrow>
            (\<exists>pre post. trace = pre @ ROS_FATAL planner_type # post
                \<and> SetBounds (map_bounds (getCostmap P0)) \<in> set pre
                \<and> SetStateValidityChecker \<in> set pre
                \<and> (\<forall>e \<in> set pre. \<not> fatal_event e \<and> \<not> planner_event e)))
       \<and> (\<not> passes_checks P0 start goal \<longrightarrow>
            \<not> ok \<and> (\<forall>e \<in> set trace. \<not> fatal_event e \<and> \<not> planner_event e))"
proof -
  define P where "P = fst (readParameters P0)"
  have sel0: "setPlannerType P0 = (planner_type, None, [ROS_FATAL planner_type, SetPlanner None])"
    using setPlannerType_events[of P0] t unsupported
    by (cases "setPlannerType P0") auto
  have nh: "private_nh P = private_nh P0"
    by (simp add: P_def readParameters_fields)
  have sel: "setPlannerType P = (planner_type, None, [ROS_FATAL planner_type, SetPlanner None])"
    using setPlannerType_events[of P] t unsupported nh
    by (cases "setPlannerType P") auto
  have fatal: "\<exists>pre post. trace = pre @ ROS_FATAL planner_type # post
                \<and> SetBounds (map_bounds (getCostmap P0)) \<in> set pre
                \<and> SetStateValidityChecker \<in> set pre
                \<and> (\<forall>e \<in> set pre. \<not> fatal_event e \<and> \<not> planner_event e)"
    if "passes_checks P0 start goal"
  proof -
    from makePlan_passes_or_rejects[OF run] that obtain pre t' ptr selection later where
      sel': "setPlannerType P = (t', ptr, selection)"
      and tr: "trace = pre @ selection @ [Solve (solver_maxtime P)] @ later"
      and pre: "SetBounds (map_bounds (getCostmap P0)) \<in> set pre"
        "SetStateValidityChecker \<in> set pre"
        "\<forall>e \<in> set pre. \<not> fatal_event e \<and> \<not> planner_event e"
      unfolding P_def by blast
    from sel sel' have "selection = [ROS_FATAL planner_type, SetPlanner None]" by simp
    then have "trace = pre @ ROS_FATAL planner_type
        # (SetPlanner None # Solve (solver_maxtime P) # later)"
      by (simp add: tr)
    with pre show ?thesis by blast
  qed
  have rejected: "\<not> ok \<and> (\<forall>e \<in> set trace. \<not> fatal_event e \<and> \<not> planner_event e)"
    if "\<not> passes_checks P0 start goal"
    using makePlan_passes_or_rejects[OF run] that by blast
  from sel0 fatal rejected show ?thesis by simp
qed

theorem unsupported_planner_type_witness:
  "''Bogus'' \<notin> set supported_planner_types
   \<and> passes_checks bogus_planner (stamped_at 0 0) (stamped_at 10 0)
   \<and> makePlan bogus_planner (stamped_at 0 0) (stamped_at 10 0) [] =
       Some (True, [stamped_at 0 0, stamped_at 2 0],
         [SetBounds \<lparr> bounds_low = [0, 0], bounds_high = [20, 20] \<rparr>,
          SetStateValidityChecker,
          SetStateValidityCheckingResolution 0.004,
          FootprintCost (frame_at 10 0), FootprintCost (frame_at 0 0),
          SetStartAndGoalStates \<lparr> getX = 0, getY = 0, getYaw = 0 \<rparr>
                                \<lparr> getX = 0, getY = 0, getYaw = 0 \<rparr>,
          ROS_FATAL ''Bogus'', SetPlanner None, Solve 1, SimplifySolution,
          PublishPlan [stamped_at 0 0, stamped_at 2 0]])
   \<and> fst (snd (setPlannerType bogus_planner)) = None
   \<and> ROS_FATAL ''Bogus'' \<in> set (snd (snd (setPlannerType bogus_planner)))"
proof -
  have un: "''Bogus'' \<notin> set supported_planner_types"
    by (simp add: supported_planner_types_def)
  from unsupported_planner_type[OF bogus_type[symmetric] un bogus_run]
  have "fst (snd (setPlannerType bogus_planner)) = None"
    and "ROS_FATAL ''Bogus'' \<in> set (snd (snd (setPlannerType bogus_planner)))"
    by simp_all
  with un bogus_passes bogus_run show ?thesis by simp
qed


text \<open>
  Claim C8. With a footprint of fewer than 3 vertices the footprint cost of every
  pose is \<open>-1\<close>, the validity oracle rejects every state, and \<^verbatim>\<open>makePlan\<close> returns
  failure for every start and goal without selecting or invoking a planner.
\<close>

theorem missing_footprint_rejected:
  assumes "length (footprint_spec P0) < 3"
  shows "footprintCost P0 p = - 1 \<and> \<not> isStateValid2DGrid P0 state
       \<and> (\<exists>plan' trace. makePlan P0 start goal plan = Some (False, plan', trace)
             \<and> (\<forall>e \<in> set trace. \<not> planner_event e))"
proof -
  have cost: "footprintCost P0 p = - 1" for p
    using assms by (rule no_footprint_cost)
  have invalid: "\<not> isStateValid2DGrid P0 state"
    by (simp add: isStateValid2DGrid_def cost)
  have run: "\<exists>plan' trace. makePlan P0 start goal plan = Some (False, plan', trace)
             \<and> (\<forall>e \<in> set trace. \<not> planner_event e)"
  proof (cases "initialized P0")
    case False
    then show ?thesis by (simp add: makePlan_def)
  next
    case True
    obtain P warned where rp: "readParameters P0 = (P, warned)"
      by (cases "readParameters P0")
    have fp: "length (footprint_spec P) < 3"
      using assms rp readParameters_fields(4)[of P0] by simp
    have nw: "\<forall>e \<in> set warned. \<not> planner_event e"
      using readParameters_events[of _ P0] rp by simp
    show ?thesis using True nw
      by (auto simp: makePlan_def rp Let_def no_footprint_collision[OF fp] footprintCost_log_def)
  qed
  from cost invalid run show ?thesis by simp
qed

theorem missing_footprint_rejected_witness:
  "length (footprint_spec no_footprint_planner) < 3
   \<and> footprintCost no_footprint_planner (frame_at 10 0) = - 1
   \<and> \<not> isStateValid2DGrid no_footprint_planner \<lparr> getX = 10, getY = 0, getYaw = 0 \<rparr>
   \<and> returned_flag (makePlan no_footprint_planner (stamped_at 0 0) (stamped_at 10 0) [])
       = Some False"
proof -
  have short: "length (footprint_spec no_footprint_planner) < 3"
    by (simp add: no_footprint_planner_def demo_planner_def)
  from missing_footprint_rejected[OF short, of "frame_at 10 0"
      "\<lparr> getX = 10, getY = 0, getYaw = 0 \<rparr>" "stamped_at 0 0" "stamped_at 10 0" "[]"]
  show ?thesis using short by (auto simp: returned_flag_def)
qed

text \<open>
  Claim C10. The endpoint check and the validity oracle differ at the threshold: for a
  state whose footprint cost lies in \<open>[max_footprint_cost, max_footprint_cost + 1)\<close>,
  with a ceiling that is not negative, the endpoint check truncates the cost to the
  ceiling itself and rejects only values above the ceiling, so it accepts the pose,
  while \<^verbatim>\<open>isStateValid2DGrid\<close>, which demands an untruncated cost below the ceiling,
  rejects it.
\<close>

theorem endpoint_check_accepts_what_oracle_rejects:
  assumes "0 \<le> sint (max_footprint_cost P)"
    and "real_of_int (sint (max_footprint_cost P)) \<le> footprintCost P (convert_State_Pose2D state)"
    and "footprintCost P (convert_State_Pose2D state) < real_of_int (sint (max_footprint_cost P)) + 1"
  shows "double_to_int (footprintCost P (convert_State_Pose2D state))
           = Some (sint (max_footprint_cost P))
       \<and> endpoint_in_collision P (convert_State_Pose2D state) = Some False
       \<and> \<not> isStateValid2DGrid P state"
proof -
  define c where "c = footprintCost P (convert_State_Pose2D state)"
  define m where "m = sint (max_footprint_cost P)"
  have c: "real_of_int m \<le> c" "c < real_of_int m + 1" and m0: "0 \<le> m"
    using assms by (simp_all add: c_def m_def)
  then have "0 \<le> c" by linarith
  moreover have "\<lfloor>c\<rfloor> = m" using c by (simp add: floor_unique)
  ultimately have "trunc_toward_zero c = m" by (simp add: trunc_toward_zero_def)
  moreover have "INT_MIN \<le> m \<and> m \<le> INT_MAX"
    using sint32_range[of "max_footprint_cost P"] by (simp add: m_def INT_MIN_def INT_MAX_def)
  ultimately have conv: "double_to_int c = Some m" by (simp add: double_to_int_def)
  then have "endpoint_in_collision P (convert_State_Pose2D state) = Some False"
    using m0 by (simp add: endpoint_in_collision_def c_def[symmetric] m_def[symmetric])
  moreover have "\<not> isStateValid2DGrid P state"
    using c by (simp add: isStateValid2DGrid_def c_def[symmetric] m_def[symmetric] Let_def)
  ultimately show ?thesis using conv by (simp add: c_def m_def)
qed

theorem endpoint_check_accepts_what_oracle_rejects_witness:
  "sint (max_footprint_cost (goal_cost_planner 256.5)) = 256
   \<and> footprintCost (goal_cost_planner 256.5)
        (convert_State_Pose2D \<lparr> getX = 10, getY = 0, getYaw = 0 \<rparr>) = 256.5
   \<and> double_to_int (footprintCost (goal_cost_planner 256.5)
        (convert_State_Pose2D \<lparr> getX = 10, getY = 0, getYaw = 0 \<rparr>)) = Some 256
   \<and> endpoint_in_collision (goal_cost_planner 256.5)
        (convert_State_Pose2D \<lparr> getX = 10, getY = 0, getYaw = 0 \<rparr>) = Some False
   \<and> \<not> isStateValid2DGrid (goal_cost_planner 256.5) \<lparr> getX = 10, getY = 0, getYaw = 0 \<rparr>"
proof -
  have h1: "0 \<le> sint (max_footprint_cost (goal_cost_planner 256.5))"
    by (simp add: goal_cost_ceiling)
  have h2: "real_of_int (sint (max_footprint_cost (goal_cost_planner 256.5)))
      \<le> footprintCost (goal_cost_planner 256.5)
           (convert_State_Pose2D \<lparr> getX = 10, getY = 0, getYaw = 0 \<rparr>)"
    by (simp add: goal_cost_ceiling goal_above_ceiling_cost)
  have h3: "footprintCost (goal_cost_planner 256.5)
           (convert_State_Pose2D \<lparr> getX = 10, getY = 0, getYaw = 0 \<rparr>)
      < real_of_int (sint (max_footprint_cost (goal_cost_planner 256.5))) + 1"
    by (simp add: goal_cost_ceiling goal_above_ceiling_cost)
  from endpoint_check_accepts_what_oracle_rejects[OF h1 h2 h3]
  show ?thesis by (simp add: goal_above_ceiling_cost goal_cost_ceiling)
qed

end
